theory Spec2Isabelle
  imports Complex_Main "HOL-Library.Multiset"
begin

section \<open>Python values and exceptions\<close>

text \<open>
  Python floats are modelled as real numbers (no rounding, no NaN), Python dictionaries
  as association lists in insertion order, and a raised exception as the left summand
  of a result.
\<close>

datatype error = KeyError | TypeError | ValueError | SqliteError | OSError | TclError

datatype pyobj =
    PNone
  | PNum real
  | PStr string
  | PBool bool
  | PList "pyobj list"
  | PDict "(string \<times> pyobj) list"

type_synonym dict = "(string \<times> pyobj) list"

text \<open>\<open>d[k]\<close> raises KeyError on a missing key.\<close>

definition dict_get :: "dict \<Rightarrow> string \<Rightarrow> error + pyobj" where
  "dict_get d k = (case map_of d k of None \<Rightarrow> Inl KeyError | Some v \<Rightarrow> Inr v)"

text \<open>\<open>d[k] = v\<close> overwrites in place, or appends a new key.\<close>

fun dict_set :: "string \<Rightarrow> pyobj \<Rightarrow> dict \<Rightarrow> dict" where
  "dict_set k v [] = [(k, v)]"
| "dict_set k v ((k', v') # d) = (if k = k' then (k, v) # d else (k', v') # dict_set k v d)"

text \<open>
  Arithmetic with a float on a value that is not a number raises TypeError; a bool
  counts as 0 or 1.
\<close>

fun num :: "pyobj \<Rightarrow> error + real" where
  "num (PNum r) = Inr r"
| "num (PBool b) = Inr (if b then 1 else 0)"
| "num _ = Inl TypeError"

section \<open>config.py\<close>

definition DEFAULT_KWH_COST :: real where "DEFAULT_KWH_COST = 15 / 100"
definition DEFAULT_POLLING_INTERVAL :: real where "DEFAULT_POLLING_INTERVAL = 5"
definition DB_VERSION :: int where "DB_VERSION = 1"
definition DEFAULT_CPU_TDP :: real where "DEFAULT_CPU_TDP = 65"
definition DEFAULT_GPU_TDP :: real where "DEFAULT_GPU_TDP = 150"
definition DEFAULT_MOTHERBOARD_POWER :: real where "DEFAULT_MOTHERBOARD_POWER = 30"
definition DEFAULT_RAM_PER_STICK :: real where "DEFAULT_RAM_PER_STICK = 5"
definition DEFAULT_SSD_POWER :: real where "DEFAULT_SSD_POWER = 3"
definition DEFAULT_HDD_POWER :: real where "DEFAULT_HDD_POWER = 7"
definition DEFAULT_IDLE_POWER :: real where "DEFAULT_IDLE_POWER = 20"
definition CPU_UTILIZATION_SCALING :: real where "CPU_UTILIZATION_SCALING = 7 / 10"
definition GPU_UTILIZATION_SCALING :: real where "GPU_UTILIZATION_SCALING = 8 / 10"

section \<open>data_storage.py\<close>

subsection \<open>The database\<close>

text \<open>
  The \<open>value\<close> column of the settings table is TEXT. A text is modelled by what
  \<open>float()\<close> makes of it: \<open>Str_float x\<close> is \<open>str(x)\<close> for a float \<open>x\<close> (Python
  guarantees \<open>float(str(x)) == x\<close>), \<open>Str_int i\<close> is \<open>str(i)\<close> for an integer, and
  \<open>Unparsable s\<close> is any text that \<open>float()\<close> rejects with ValueError.
\<close>

datatype sqltext = Str_float real | Str_int int | Unparsable string

fun py_float :: "sqltext \<Rightarrow> error + real" where
  "py_float (Str_float x) = Inr x"
| "py_float (Str_int i) = Inr (of_int i)"
| "py_float (Unparsable s) = Inl ValueError"

text \<open>
  Time is counted in seconds since the epoch and a calendar date is its day number
  (the ISO text of a date determines the day number and back). \<open>CURRENT_TIMESTAMP\<close> is
  UTC; \<open>datetime.date.today()\<close> is the local date, \<open>utc_offset\<close> seconds away.
\<close>

type_synonym date = int

record clock =
  utc_now :: int
  utc_offset :: int

definition sql_date :: "int \<Rightarrow> date" where
  "sql_date ts = ts div 86400"

definition date_today :: "clock \<Rightarrow> date" where
  "date_today clk = (utc_now clk + utc_offset clk) div 86400"

record reading =
  row_id :: nat
  timestamp :: int
  total_power :: real
  component_data :: pyobj
  cost :: real

record daily =
  avg_power :: real
  max_power :: real
  total_energy :: real
  total_cost :: real
  usage_hours :: real

text \<open>
  \<open>settings\<close> has \<open>key\<close> as primary key and is a map. \<open>daily_power\<close> is kept as the
  list of its rows, each a date and the five aggregate columns, so that appending a
  second row for a date would be visible. The components table is not modelled.
\<close>

record db =
  settings :: "string \<rightharpoonup> sqltext"
  power_readings :: "reading list"
  next_id :: nat
  daily_power :: "(date \<times> daily) list"

text \<open>The state that \<open>_create_tables\<close> leaves behind in a new database file.\<close>

definition create_tables :: db where
  "create_tables =
     \<lparr> settings = [''db_version'' \<mapsto> Str_int DB_VERSION,
                    ''kwh_cost'' \<mapsto> Str_float DEFAULT_KWH_COST],
       power_readings = [],
       next_id = 1,
       daily_power = [] \<rparr>"

text \<open>
  \<open>INSERT OR REPLACE\<close> on a table with a primary key deletes the row that has the
  key, if any, and inserts the new row.
\<close>

definition insert_or_replace :: "'k \<Rightarrow> 'v \<Rightarrow> ('k \<times> 'v) list \<Rightarrow> ('k \<times> 'v) list" where
  "insert_or_replace k v tbl = filter (\<lambda>row. fst row \<noteq> k) tbl @ [(k, v)]"

subsection \<open>Settings\<close>

text \<open>
  The two operations catch \<open>sqlite3.Error\<close>; whether a statement raises it is an input
  of the model, one flag per statement.
\<close>

record faults =
  select_fails :: bool
  update_fails :: bool
  insert_fails :: bool

definition no_faults :: faults where
  "no_faults = \<lparr> select_fails = False, update_fails = False, insert_fails = False \<rparr>"

text \<open>
  \<open>UPDATE settings SET value = ? WHERE key = 'kwh_cost'\<close> changes the row when there
  is one and does nothing, without an error, when there is none. The handler's
  \<open>INSERT OR REPLACE\<close> runs only after \<open>sqlite3.Error\<close>. No branch raises.
\<close>

definition set_kwh_cost :: "faults \<Rightarrow> real \<Rightarrow> db \<Rightarrow> error + db" where
  "set_kwh_cost fl c d =
     (if \<not> update_fails fl then
        Inr (if ''kwh_cost'' \<in> dom (settings d)
             then d\<lparr>settings := (settings d)(''kwh_cost'' \<mapsto> Str_float c)\<rparr>
             else d)
      else if \<not> insert_fails fl then
        Inr (d\<lparr>settings := (settings d)(''kwh_cost'' \<mapsto> Str_float c)\<rparr>)
      else Inr d)"

text \<open>
  \<open>get_kwh_cost\<close> returns the stored value; with no row it writes the default through
  \<open>set_kwh_cost\<close> and returns the default; on \<open>sqlite3.Error\<close> it returns the
  default. ValueError from \<open>float()\<close> is not caught.
\<close>

definition get_kwh_cost :: "faults \<Rightarrow> db \<Rightarrow> (error + real) \<times> db" where
  "get_kwh_cost fl d =
     (if select_fails fl then (Inr DEFAULT_KWH_COST, d)
      else (case settings d ''kwh_cost'' of
              Some txt \<Rightarrow> (py_float txt, d)
            | None \<Rightarrow>
                (case set_kwh_cost fl DEFAULT_KWH_COST d of
                   Inl e \<Rightarrow> (Inl e, d)
                 | Inr d' \<Rightarrow> (Inr DEFAULT_KWH_COST, d'))))"

text \<open>A call of \<open>set_kwh_cost\<close> followed by a call of \<open>get_kwh_cost\<close>.\<close>

definition set_then_get :: "faults \<Rightarrow> real \<Rightarrow> db \<Rightarrow> error + real" where
  "set_then_get fl c d =
     (case set_kwh_cost fl c d of
        Inl e \<Rightarrow> Inl e
      | Inr d' \<Rightarrow> fst (get_kwh_cost fl d'))"

subsection \<open>ui.py: saving the settings\<close>

datatype dialog = Showerror string | Showinfo string

text \<open>
  \<open>_save_settings\<close> reads the entry field (\<open>DoubleVar.get\<close> raises on text that is
  not a number), validates, and only then calls \<open>set_kwh_cost\<close>.
\<close>

definition save_settings :: "faults \<Rightarrow> error + real \<Rightarrow> db \<Rightarrow> dialog \<times> db" where
  "save_settings fl entry d =
     (case entry of
        Inl e \<Rightarrow> (Showerror ''Failed to save settings'', d)
      | Inr kwh_cost \<Rightarrow>
          if kwh_cost \<le> 0 then (Showerror ''Cost per kWh must be greater than zero'', d)
          else (case set_kwh_cost fl kwh_cost d of
                  Inl e \<Rightarrow> (Showerror ''Failed to save settings'', d)
                | Inr d' \<Rightarrow> (Showinfo ''Settings saved successfully'', d')))"

subsection \<open>Readings and the daily aggregate\<close>

text \<open>\<open>max\<close> of an empty sequence raises ValueError.\<close>

fun py_max :: "real list \<Rightarrow> error + real" where
  "py_max [] = Inl ValueError"
| "py_max (x # xs) = Inr (foldl max x xs)"

definition readings_on :: "date \<Rightarrow> db \<Rightarrow> reading list" where
  "readings_on today d = filter (\<lambda>r. sql_date (timestamp r) = today) (power_readings d)"

definition update_daily_aggregation :: "date \<Rightarrow> db \<Rightarrow> error + db" where
  "update_daily_aggregation today d =
     (let readings = readings_on today d in
      if readings = [] then Inr d
      else
        let total = sum_list (map total_power readings);
            avg = total / real (length readings)
        in (case py_max (map total_power readings) of
              Inl e \<Rightarrow> Inl e
            | Inr mx \<Rightarrow>
               let hours_per_reading = DEFAULT_POLLING_INTERVAL / 3600;
                   energy = sum_list (map (\<lambda>r. (total_power r / 1000) * hours_per_reading) readings);
                   csum = sum_list (map cost readings);
                   hours = real (length readings) * hours_per_reading
               in Inr (d\<lparr>daily_power :=
                           insert_or_replace today
                             \<lparr> avg_power = avg, max_power = mx, total_energy = energy,
                               total_cost = csum, usage_hours = hours \<rparr>
                             (daily_power d)\<rparr>)))"

text \<open>
  \<open>save_power_reading\<close>: with no price given, the stored one is read
  (\<open>fetchone()\<close> is None without a row, and subscripting None raises TypeError).
  The row's timestamp is \<open>CURRENT_TIMESTAMP\<close>; the aggregation then runs for the
  local date.
\<close>

definition price_or_stored :: "real option \<Rightarrow> db \<Rightarrow> error + real" where
  "price_or_stored kwh_cost d =
     (case kwh_cost of
        Some k \<Rightarrow> Inr k
      | None \<Rightarrow> (case settings d ''kwh_cost'' of
                   None \<Rightarrow> Inl TypeError
                 | Some txt \<Rightarrow> py_float txt))"

definition save_power_reading ::
    "clock \<Rightarrow> real \<Rightarrow> pyobj \<Rightarrow> real option \<Rightarrow> db \<Rightarrow> error + db" where
  "save_power_reading clk tp cd kwh_cost d =
     (case price_or_stored kwh_cost d of
        Inl e \<Rightarrow> Inl e
      | Inr k \<Rightarrow>
          let c = (tp / 1000) * k;
              row = \<lparr> row_id = next_id d, timestamp = utc_now clk, total_power = tp,
                      component_data = cd, cost = c \<rparr>;
              d' = d\<lparr>power_readings := power_readings d @ [row], next_id := Suc (next_id d)\<rparr>
          in update_daily_aggregation (date_today clk) d')"

text \<open>
  A sequence of \<open>save_power_reading\<close> calls, each with the clock at the time of the
  call; the first exception ends it.
\<close>

type_synonym delivery = "clock \<times> real \<times> pyobj \<times> real option"

fun record_all :: "delivery list \<Rightarrow> db \<Rightarrow> error + db" where
  "record_all [] d = Inr d"
| "record_all ((clk, tp, cd, k) # rest) d =
     (case save_power_reading clk tp cd k d of
        Inl e \<Rightarrow> Inl e
      | Inr d' \<Rightarrow> record_all rest d')"

section \<open>hardware_monitor.py: sampling\<close>

subsection \<open>The outside world\<close>

text \<open>
  A sensor and a hardware item of LibreHardwareMonitor, as the code reads them. A
  sensor's \<open>Value\<close> is a float or None. \<open>Update\<close> is the outcome of
  \<open>hardware.Update()\<close> (the exception it raises, if any) and \<open>Sensors\<close> the outcome
  of enumerating \<open>hardware.Sensors\<close>.
\<close>

record sensor =
  SensorType :: int
  SensorName :: string
  Value :: pyobj

record hardware =
  HardwareType :: int
  HardwareName :: string
  Update :: "error option"
  Sensors :: "error + sensor list"

text \<open>
  The result of \<open>subprocess.run\<close>: the return code, the stripped standard output, and
  what \<open>float()\<close> makes of that output (None when it raises ValueError).
\<close>

record completed_process =
  returncode :: int
  stdout :: string
  stdout_float :: "real option"

text \<open>
  What one call of \<open>get_power_readings\<close> finds outside the program. Every external
  query is made at most once at each place of the code in one call, so there is one
  outcome for each place: \<open>psutil.cpu_percent()\<close> in \<open>_get_cpu_power_lhm\<close>, in its
  handler, and in \<open>_estimate_power_consumption\<close>; the \<open>nvidia-smi\<close> utilization
  query in \<open>_get_gpu_power_lhm\<close> and in \<open>_estimate_power_consumption\<close>.
\<close>

record sample_env =
  Hardware :: "error + hardware list"
  cpu_percent_lhm :: "error + real"
  cpu_percent_lhm_handler :: "error + real"
  nvidia_smi_lhm :: "error + completed_process"
  cpu_percent_est :: "error + real"
  nvidia_smi_est :: "error + completed_process"

text \<open>The fields of the monitor object that sampling reads.\<close>

record monitor =
  lhm_initialized :: bool
  components :: dict

subsection \<open>Python operators\<close>

text \<open>\<open>sub in s\<close> on strings.\<close>

fun contains :: "string \<Rightarrow> string \<Rightarrow> bool" where
  "contains sub [] = (sub = [])"
| "contains sub (c # cs) = (take (length sub) (c # cs) = sub \<or> contains sub cs)"

text \<open>\<open>v == 0\<close>: true for the number zero and for False, false for everything else.\<close>

fun py_eq0 :: "pyobj \<Rightarrow> bool" where
  "py_eq0 (PNum r) = (r = 0)"
| "py_eq0 (PBool b) = (\<not> b)"
| "py_eq0 _ = False"

text \<open>\<open>v > 0\<close>: raises TypeError on a value that is not a number.\<close>

fun py_gt0 :: "pyobj \<Rightarrow> error + bool" where
  "py_gt0 (PNum r) = Inr (0 < r)"
| "py_gt0 (PBool b) = Inr b"
| "py_gt0 _ = Inl TypeError"

text \<open>\<open>self.components[t]["max_power"]\<close>.\<close>

definition component_max_power :: "monitor \<Rightarrow> string \<Rightarrow> error + pyobj" where
  "component_max_power m t =
     (case dict_get (components m) t of
        Inl e \<Rightarrow> Inl e
      | Inr (PDict c) \<Rightarrow> dict_get c ''max_power''
      | Inr _ \<Rightarrow> Inl TypeError)"

text \<open>\<open>tdp * (util / 100) * scaling\<close>.\<close>

definition utilization_power :: "pyobj \<Rightarrow> pyobj \<Rightarrow> real \<Rightarrow> error + real" where
  "utilization_power tdp util scaling =
     (case num util of
        Inl e \<Rightarrow> Inl e
      | Inr u \<Rightarrow> (case num tdp of
                   Inl e \<Rightarrow> Inl e
                 | Inr t \<Rightarrow> Inr (t * (u / 100) * scaling)))"

subsection \<open>The direct-sensor path\<close>

text \<open>
  The loops over \<open>self.computer.Hardware\<close> and the sensors of each item of one
  hardware type. The loop returns the dictionary as it is when the loop ends or when
  an enumeration raises, together with the exception in the second case.
\<close>

fun hardware_loop ::
    "int \<Rightarrow> (sensor \<Rightarrow> dict \<Rightarrow> dict) \<Rightarrow> hardware list \<Rightarrow> dict \<Rightarrow> error option \<times> dict" where
  "hardware_loop t f [] data = (None, data)"
| "hardware_loop t f (h # hs) data =
     (if HardwareType h = t then
        (case Sensors h of
           Inl e \<Rightarrow> (Some e, data)
         | Inr ss \<Rightarrow> hardware_loop t f hs (fold f ss data))
      else hardware_loop t f hs data)"

definition cpu_sensor :: "sensor \<Rightarrow> dict \<Rightarrow> dict" where
  "cpu_sensor s cpu_data =
     (if SensorType s = 1 then
        (if contains ''Package'' (SensorName s)
         then dict_set ''power'' (Value s) cpu_data else cpu_data)
      else if SensorType s = 2 then
        (if contains ''Package'' (SensorName s)
         then dict_set ''temperature'' (Value s) cpu_data else cpu_data)
      else if SensorType s = 3 then
        (if contains ''Total'' (SensorName s)
         then dict_set ''utilization'' (Value s) cpu_data else cpu_data)
      else cpu_data)"

definition gpu_sensor :: "sensor \<Rightarrow> dict \<Rightarrow> dict" where
  "gpu_sensor s gpu_data =
     (if SensorType s = 1 then
        (if contains ''Package'' (SensorName s)
         then dict_set ''power'' (Value s) gpu_data else gpu_data)
      else if SensorType s = 2 then
        (if contains ''Core'' (SensorName s)
         then dict_set ''temperature'' (Value s) gpu_data else gpu_data)
      else if SensorType s = 3 then
        (if contains ''Core'' (SensorName s)
         then dict_set ''utilization'' (Value s) gpu_data else gpu_data)
      else gpu_data)"

definition initial_data :: dict where
  "initial_data = [(''power'', PNum 0), (''utilization'', PNum 0), (''temperature'', PNum 0)]"

text \<open>
  The \<open>try\<close> block of \<open>_get_cpu_power_lhm\<close>: the dictionary at the end or at the
  exception. The estimate is assigned last, so an exception inside it leaves the
  dictionary as the loops left it.
\<close>

definition cpu_power_try :: "monitor \<Rightarrow> sample_env \<Rightarrow> error option \<times> dict" where
  "cpu_power_try m env =
     (case Hardware env of
        Inl e \<Rightarrow> (Some e, initial_data)
      | Inr hs \<Rightarrow>
          (case hardware_loop 0 cpu_sensor hs initial_data of
             (Some e, cpu_data) \<Rightarrow> (Some e, cpu_data)
           | (None, cpu_data) \<Rightarrow>
               (case dict_get cpu_data ''power'' of
                  Inl e \<Rightarrow> (Some e, cpu_data)
                | Inr p \<Rightarrow>
                    if py_eq0 p then
                      (case component_max_power m ''cpu'' of
                         Inl e \<Rightarrow> (Some e, cpu_data)
                       | Inr cpu_tdp \<Rightarrow>
                           (case dict_get cpu_data ''utilization'' of
                              Inl e \<Rightarrow> (Some e, cpu_data)
                            | Inr u \<Rightarrow>
                                (case py_gt0 u of
                                   Inl e \<Rightarrow> (Some e, cpu_data)
                                 | Inr positive \<Rightarrow>
                                     (case (if positive then Inr u
                                            else map_sum id PNum (cpu_percent_lhm env)) of
                                        Inl e \<Rightarrow> (Some e, cpu_data)
                                      | Inr cpu_util \<Rightarrow>
                                          (case utilization_power cpu_tdp cpu_util
                                                  CPU_UTILIZATION_SCALING of
                                             Inl e \<Rightarrow> (Some e, cpu_data)
                                           | Inr w \<Rightarrow>
                                               (None, dict_set ''power'' (PNum w) cpu_data))))))
                    else (None, cpu_data))))"

text \<open>
  \<open>_get_cpu_power_lhm\<close>: the handler estimates from \<open>psutil.cpu_percent()\<close>; an
  exception inside the handler leaves the function.
\<close>

definition get_cpu_power_lhm :: "monitor \<Rightarrow> sample_env \<Rightarrow> error + dict" where
  "get_cpu_power_lhm m env =
     (case cpu_power_try m env of
        (None, cpu_data) \<Rightarrow> Inr cpu_data
      | (Some e, cpu_data) \<Rightarrow>
          (case component_max_power m ''cpu'' of
             Inl e' \<Rightarrow> Inl e'
           | Inr cpu_tdp \<Rightarrow>
               (case cpu_percent_lhm_handler env of
                  Inl e' \<Rightarrow> Inl e'
                | Inr cpu_util \<Rightarrow>
                    (case utilization_power cpu_tdp (PNum cpu_util) CPU_UTILIZATION_SCALING of
                       Inl e' \<Rightarrow> Inl e'
                     | Inr w \<Rightarrow>
                         Inr (dict_set ''utilization'' (PNum cpu_util)
                               (dict_set ''power'' (PNum w) cpu_data))))))"

text \<open>
  The inner \<open>try\<close> of \<open>_get_gpu_power_lhm\<close>: \<open>nvidia-smi\<close> overwrites the
  utilization when it returns 0 and its output is a number; every exception is
  swallowed.
\<close>

definition nvidia_utilization :: "error + completed_process \<Rightarrow> real option" where
  "nvidia_utilization run =
     (case run of
        Inl e \<Rightarrow> None
      | Inr result \<Rightarrow> if returncode result = 0 then stdout_float result else None)"

definition gpu_power_try :: "monitor \<Rightarrow> sample_env \<Rightarrow> error option \<times> dict" where
  "gpu_power_try m env =
     (case Hardware env of
        Inl e \<Rightarrow> (Some e, initial_data)
      | Inr hs \<Rightarrow>
          (case hardware_loop 1 gpu_sensor hs initial_data of
             (Some e, gpu_data) \<Rightarrow> (Some e, gpu_data)
           | (None, gpu_data) \<Rightarrow>
               (case dict_get gpu_data ''power'' of
                  Inl e \<Rightarrow> (Some e, gpu_data)
                | Inr p \<Rightarrow>
                    if py_eq0 p then
                      (let gpu_data1 =
                             (case nvidia_utilization (nvidia_smi_lhm env) of
                                Some gpu_util \<Rightarrow> dict_set ''utilization'' (PNum gpu_util) gpu_data
                              | None \<Rightarrow> gpu_data)
                       in case dict_get gpu_data1 ''utilization'' of
                            Inl e \<Rightarrow> (Some e, gpu_data1)
                          | Inr u0 \<Rightarrow>
                              (let gpu_data2 =
                                     (if py_eq0 u0 then dict_set ''utilization'' (PNum 30) gpu_data1
                                      else gpu_data1)
                               in case component_max_power m ''gpu'' of
                                    Inl e \<Rightarrow> (Some e, gpu_data2)
                                  | Inr gpu_tdp \<Rightarrow>
                                      (case dict_get gpu_data2 ''utilization'' of
                                         Inl e \<Rightarrow> (Some e, gpu_data2)
                                       | Inr u \<Rightarrow>
                                           (case utilization_power gpu_tdp u
                                                   GPU_UTILIZATION_SCALING of
                                              Inl e \<Rightarrow> (Some e, gpu_data2)
                                            | Inr w \<Rightarrow>
                                                (None, dict_set ''power'' (PNum w) gpu_data2)))))
                    else (None, gpu_data))))"

text \<open>\<open>_get_gpu_power_lhm\<close>: the handler assumes 30% utilization.\<close>

definition get_gpu_power_lhm :: "monitor \<Rightarrow> sample_env \<Rightarrow> error + dict" where
  "get_gpu_power_lhm m env =
     (case gpu_power_try m env of
        (None, gpu_data) \<Rightarrow> Inr gpu_data
      | (Some e, gpu_data) \<Rightarrow>
          (case component_max_power m ''gpu'' of
             Inl e' \<Rightarrow> Inl e'
           | Inr gpu_tdp \<Rightarrow>
               (case num gpu_tdp of
                  Inl e' \<Rightarrow> Inl e'
                | Inr t \<Rightarrow>
                    Inr (dict_set ''utilization'' (PNum 30)
                          (dict_set ''power'' (PNum (t * (3 / 10) * GPU_UTILIZATION_SCALING))
                             gpu_data)))))"

subsection \<open>The estimation path\<close>

definition default_sample :: "real \<times> dict" where
  "default_sample =
     (100, [(''cpu'', PDict [(''power'', PNum 50)]),
            (''gpu'', PDict [(''power'', PNum 30)]),
            (''other'', PDict [(''power'', PNum 20)])])"

text \<open>
  The \<open>try\<close> block of \<open>_estimate_power_consumption\<close>. \<open>total_power\<close> and
  \<open>component_data\<close> are local, so an exception discards what was computed.
\<close>

definition estimate_try :: "monitor \<Rightarrow> sample_env \<Rightarrow> error + real \<times> dict" where
  "estimate_try m env =
     (case cpu_percent_est env of
        Inl e \<Rightarrow> Inl e
      | Inr cpu_util \<Rightarrow>
     (case component_max_power m ''cpu'' of
        Inl e \<Rightarrow> Inl e
      | Inr cpu_tdp \<Rightarrow>
     (case utilization_power cpu_tdp (PNum cpu_util) CPU_UTILIZATION_SCALING of
        Inl e \<Rightarrow> Inl e
      | Inr cpu_power \<Rightarrow>
     (let component_data1 =
            dict_set ''cpu'' (PDict [(''power'', PNum cpu_power),
                                     (''utilization'', PNum cpu_util),
                                     (''temperature'', PNum 0)]) [];
          total_power1 = 0 + cpu_power;
          gpu_util = (case nvidia_utilization (nvidia_smi_est env) of
                        Some u \<Rightarrow> u
                      | None \<Rightarrow> 30)
      in
     (case component_max_power m ''gpu'' of
        Inl e \<Rightarrow> Inl e
      | Inr gpu_tdp \<Rightarrow>
     (case utilization_power gpu_tdp (PNum gpu_util) GPU_UTILIZATION_SCALING of
        Inl e \<Rightarrow> Inl e
      | Inr gpu_power \<Rightarrow>
     (let component_data2 =
            dict_set ''gpu'' (PDict [(''power'', PNum gpu_power),
                                     (''utilization'', PNum gpu_util),
                                     (''temperature'', PNum 0)]) component_data1;
          total_power2 = total_power1 + gpu_power
      in
     (case component_max_power m ''motherboard'' of
        Inl e \<Rightarrow> Inl e
      | Inr mb_power \<Rightarrow>
     (case num mb_power of
        Inl e \<Rightarrow> Inl e
      | Inr mb \<Rightarrow>
     (let component_data3 =
            dict_set ''motherboard'' (PDict [(''power'', mb_power)]) component_data2;
          total_power3 = total_power2 + mb
      in
     (case component_max_power m ''memory'' of
        Inl e \<Rightarrow> Inl e
      | Inr memory_power \<Rightarrow>
     (case num memory_power of
        Inl e \<Rightarrow> Inl e
      | Inr mem \<Rightarrow>
     (let component_data4 =
            dict_set ''memory'' (PDict [(''power'', memory_power)]) component_data3;
          total_power4 = total_power3 + mem
      in
     (case component_max_power m ''storage'' of
        Inl e \<Rightarrow> Inl e
      | Inr storage_power \<Rightarrow>
     (case num storage_power of
        Inl e \<Rightarrow> Inl e
      | Inr sto \<Rightarrow>
     (let component_data5 =
            dict_set ''storage'' (PDict [(''power'', storage_power)]) component_data4;
          total_power5 = total_power4 + sto;
          total_power6 = total_power5 + DEFAULT_IDLE_POWER;
          component_data6 =
            dict_set ''idle'' (PDict [(''power'', PNum DEFAULT_IDLE_POWER)]) component_data5
      in Inr (total_power6, component_data6)))))))))))))))))"

definition estimate_power_consumption :: "monitor \<Rightarrow> sample_env \<Rightarrow> error + real \<times> dict" where
  "estimate_power_consumption m env =
     (case estimate_try m env of
        Inl e \<Rightarrow> Inr default_sample
      | Inr r \<Rightarrow> Inr r)"

subsection \<open>\<open>get_power_readings\<close>\<close>

text \<open>The first loop: \<open>hardware.Update()\<close> on every item, up to the first exception.\<close>

fun update_all :: "hardware list \<Rightarrow> error option" where
  "update_all [] = None"
| "update_all (h # hs) = (case Update h of Some e \<Rightarrow> Some e | None \<Rightarrow> update_all hs)"

text \<open>The \<open>try\<close> block of the direct-sensor branch.\<close>

definition lhm_try :: "monitor \<Rightarrow> sample_env \<Rightarrow> error + real \<times> dict" where
  "lhm_try m env =
     (case Hardware env of
        Inl e \<Rightarrow> Inl e
      | Inr hs \<Rightarrow>
     (case update_all hs of
        Some e \<Rightarrow> Inl e
      | None \<Rightarrow>
     (case get_cpu_power_lhm m env of
        Inl e \<Rightarrow> Inl e
      | Inr cpu_power \<Rightarrow>
     (case dict_get cpu_power ''power'' of
        Inl e \<Rightarrow> Inl e
      | Inr cpu_p \<Rightarrow>
     (case num cpu_p of
        Inl e \<Rightarrow> Inl e
      | Inr cpu \<Rightarrow>
     (let component_data1 = dict_set ''cpu'' (PDict cpu_power) [];
          total_power1 = 0 + cpu
      in
     (case get_gpu_power_lhm m env of
        Inl e \<Rightarrow> Inl e
      | Inr gpu_power \<Rightarrow>
     (case dict_get gpu_power ''power'' of
        Inl e \<Rightarrow> Inl e
      | Inr gpu_p \<Rightarrow>
     (case num gpu_p of
        Inl e \<Rightarrow> Inl e
      | Inr gpu \<Rightarrow>
     (let component_data2 = dict_set ''gpu'' (PDict gpu_power) component_data1;
          total_power2 = total_power1 + gpu
      in
     (case component_max_power m ''motherboard'' of
        Inl e \<Rightarrow> Inl e
      | Inr mb_power \<Rightarrow>
     (case num mb_power of
        Inl e \<Rightarrow> Inl e
      | Inr mb \<Rightarrow>
     (let component_data3 =
            dict_set ''motherboard'' (PDict [(''power'', mb_power)]) component_data2;
          total_power3 = total_power2 + mb
      in
     (case component_max_power m ''memory'' of
        Inl e \<Rightarrow> Inl e
      | Inr memory_power \<Rightarrow>
     (case num memory_power of
        Inl e \<Rightarrow> Inl e
      | Inr mem \<Rightarrow>
     (let component_data4 =
            dict_set ''memory'' (PDict [(''power'', memory_power)]) component_data3;
          total_power4 = total_power3 + mem
      in
     (case component_max_power m ''storage'' of
        Inl e \<Rightarrow> Inl e
      | Inr storage_power \<Rightarrow>
     (case num storage_power of
        Inl e \<Rightarrow> Inl e
      | Inr sto \<Rightarrow>
     (let component_data5 =
            dict_set ''storage'' (PDict [(''power'', storage_power)]) component_data4;
          total_power5 = total_power4 + sto
      in Inr (total_power5, component_data5))))))))))))))))))))"

definition get_power_readings :: "monitor \<Rightarrow> sample_env \<Rightarrow> error + real \<times> dict" where
  "get_power_readings m env =
     (if lhm_initialized m then
        (case lhm_try m env of
           Inl e \<Rightarrow> estimate_power_consumption m env
         | Inr r \<Rightarrow> Inr r)
      else estimate_power_consumption m env)"

text \<open>
  \<open>sum(v["power"] for v in component_data.values())\<close>: the sum of the entries'
  power values, an error when an entry is not a dictionary with a numeric power.
\<close>

fun sum_powers :: "dict \<Rightarrow> error + real" where
  "sum_powers [] = Inr 0"
| "sum_powers ((k, PDict e) # rest) =
     (case dict_get e ''power'' of
        Inl err \<Rightarrow> Inl err
      | Inr p \<Rightarrow>
          (case num p of
             Inl err \<Rightarrow> Inl err
           | Inr w \<Rightarrow> (case sum_powers rest of Inl err \<Rightarrow> Inl err | Inr s \<Rightarrow> Inr (w + s))))"
| "sum_powers ((k, v) # rest) = Inl TypeError"

subsection \<open>Sensor readings, for the statements about the direct-sensor path\<close>

text \<open>
  The sensors of all hardware items of one type, in the order of the loops, and the
  value that the last sensor with a property leaves behind (0, the initial value, when
  no sensor has the property).
\<close>

definition sensors_of_type :: "int \<Rightarrow> hardware list \<Rightarrow> sensor list" where
  "sensors_of_type t hs =
     concat (map (\<lambda>h. case Sensors h of Inl e \<Rightarrow> [] | Inr ss \<Rightarrow> ss)
                 (filter (\<lambda>h. HardwareType h = t) hs))"

definition last_reading :: "(sensor \<Rightarrow> bool) \<Rightarrow> sensor list \<Rightarrow> pyobj" where
  "last_reading P ss = (if filter P ss = [] then PNum 0 else Value (last (filter P ss)))"

definition package_power :: "sensor \<Rightarrow> bool" where
  "package_power s = (SensorType s = 1 \<and> contains ''Package'' (SensorName s))"

definition cpu_load :: "sensor \<Rightarrow> bool" where
  "cpu_load s = (SensorType s = 3 \<and> contains ''Total'' (SensorName s))"

definition gpu_load :: "sensor \<Rightarrow> bool" where
  "gpu_load s = (SensorType s = 3 \<and> contains ''Core'' (SensorName s))"

section \<open>ui.py and the monitoring loop\<close>










section \<open>Notions for the statements about the aggregate\<close>

text \<open>The row that the aggregation computes from a non-empty list of readings.\<close>

definition daily_row :: "reading list \<Rightarrow> daily" where
  "daily_row rs =
     \<lparr> avg_power = sum_list (map total_power rs) / real (length rs),
       max_power = Max (set (map total_power rs)),
       total_energy =
         sum_list (map (\<lambda>r. (total_power r / 1000) * (DEFAULT_POLLING_INTERVAL / 3600)) rs),
       total_cost = sum_list (map cost rs),
       usage_hours = real (length rs) * (DEFAULT_POLLING_INTERVAL / 3600) \<rparr>"



text \<open>
  What a sequence of \<open>save_power_reading\<close> calls on a new database leaves behind: the
  row of \<open>daily_power\<close> for a date, and the powers of the stored readings whose
  timestamp falls on a date. And the powers of the readings saved while a date was
  the local date.
\<close>

definition aggregate_after :: "delivery list \<Rightarrow> date \<Rightarrow> daily option" where
  "aggregate_after xs day =
     (case record_all xs create_tables of
        Inl e \<Rightarrow> None
      | Inr d \<Rightarrow> map_of (daily_power d) day)"

definition stamped_on :: "date \<Rightarrow> delivery list \<Rightarrow> real list" where
  "stamped_on day xs =
     (case record_all xs create_tables of
        Inl e \<Rightarrow> []
      | Inr d \<Rightarrow>
          map total_power (filter (\<lambda>r. sql_date (timestamp r) = day) (power_readings d)))"

definition saved_on :: "date \<Rightarrow> delivery list \<Rightarrow> real list" where
  "saved_on day xs = map (\<lambda>x. fst (snd x)) (filter (\<lambda>x. date_today (fst x) = day) xs)"

section \<open>hardware_monitor.py: detection\<close>

subsection \<open>The outside world of a detection pass\<close>

text \<open>
  Each external query of the five sub-detectors is an input: its result, or the
  exception it raises. A query that reads and parses text is given by what the code
  extracts from it: \<open>cpuinfo_model_name\<close> is the stripped text after the colon of the
  first \<open>model name\<close> line of \<open>/proc/cpuinfo\<close>, \<open>lspci\<close> the return code and the
  name taken from the first VGA or 3D controller line, \<open>dmidecode\<close> the return code
  and the number of \<open>Memory Device\<close> entries, \<open>proc_meminfo\<close> the kB of the
  \<open>MemTotal\<close> line, \<open>wmi_physical_memory\<close> the number of sticks and their summed
  capacity, \<open>amd_cards\<close> the names built from sysfs. A DMI file that does not exist
  is None. A partition carries the outcome of \<open>psutil.disk_usage\<close> (total, used,
  free, percent) and the answer of \<open>_is_ssd\<close>, which catches its own exceptions.
\<close>

record partition =
  device :: string
  mountpoint :: string
  fstype :: string
  disk_usage :: "error + real \<times> real \<times> real \<times> real"
  is_ssd :: bool

record detect_env =
  computer_Hardware :: "error + hardware list"
  os_nt :: bool
  cpu_count_cores :: "error + pyobj"
  cpu_count_logical :: "error + pyobj"
  cpu_freq :: "error + (real \<times> real option) option"
  winreg_cpu_name :: "error + string"
  cpuinfo_model_name :: "error + string option"
  nvidia_smi_name :: "error + completed_process"
  nvidia_smi_power_limit :: "error + completed_process"
  wmi_video_controllers :: "error + (string \<times> pyobj \<times> pyobj) list"
  lspci :: "error + int \<times> string option"
  nvidia_smi_name_again :: "error + completed_process"
  amd_cards :: "error + string list"
  wmi_base_boards :: "error + (string \<times> string) list"
  dmi_board_vendor :: "error + string option"
  dmi_board_name :: "error + string option"
  virtual_memory :: "error + real \<times> real"
  wmi_physical_memory :: "error + nat \<times> nat"
  dmidecode :: "error + int \<times> nat"
  proc_meminfo :: "error + nat option"
  disk_partitions :: "error + partition list"

subsection \<open>Component records\<close>

text \<open>\<open>info["details"][k] = v\<close>; every record is created with the key \<open>details\<close>.\<close>

definition details_set :: "string \<Rightarrow> pyobj \<Rightarrow> dict \<Rightarrow> dict" where
  "details_set k v info =
     (case map_of info ''details'' of
        Some (PDict det) \<Rightarrow> dict_set ''details'' (PDict (dict_set k v det)) info
      | _ \<Rightarrow> info)"

definition cpu_info0 :: "pyobj \<Rightarrow> pyobj \<Rightarrow> dict" where
  "cpu_info0 cores threads =
     [(''type'', PStr ''cpu''), (''name'', PStr ''Unknown CPU''),
      (''cores'', cores), (''threads'', threads),
      (''max_power'', PNum DEFAULT_CPU_TDP), (''details'', PDict [])]"

definition gpu_info0 :: dict where
  "gpu_info0 =
     [(''type'', PStr ''gpu''), (''name'', PStr ''Unknown GPU''),
      (''max_power'', PNum DEFAULT_GPU_TDP), (''details'', PDict [])]"

definition mb_info0 :: dict where
  "mb_info0 =
     [(''type'', PStr ''motherboard''), (''name'', PStr ''Unknown Motherboard''),
      (''max_power'', PNum DEFAULT_MOTHERBOARD_POWER), (''details'', PDict [])]"

definition memory_info0 :: dict where
  "memory_info0 =
     [(''type'', PStr ''memory''), (''name'', PStr ''System Memory''),
      (''max_power'', PNum (DEFAULT_RAM_PER_STICK * 2)), (''details'', PDict [])]"

definition storage_info0 :: dict where
  "storage_info0 =
     [(''type'', PStr ''storage''), (''devices'', PList []),
      (''max_power'', PNum 0), (''details'', PDict [])]"

subsection \<open>LibreHardwareMonitor in detection\<close>

text \<open>
  The loop of \<open>_detect_cpu\<close> and \<open>_detect_gpu\<close>: the first item of the type gives the
  name, is updated, and its first power sensor named TDP or Package gives the rated
  power. An exception leaves the record with what was assigned before it.
\<close>

definition tdp_sensor :: "sensor \<Rightarrow> bool" where
  "tdp_sensor s =
     (SensorType s = 1 \<and> (contains ''TDP'' (SensorName s) \<or> contains ''Package'' (SensorName s)))"

fun lhm_name_and_power :: "int \<Rightarrow> hardware list \<Rightarrow> dict \<Rightarrow> error option \<times> dict" where
  "lhm_name_and_power t [] info = (None, info)"
| "lhm_name_and_power t (h # hs) info =
     (if HardwareType h = t then
        (let info1 = dict_set ''name'' (PStr (HardwareName h)) info
         in case Update h of
              Some e \<Rightarrow> (Some e, info1)
            | None \<Rightarrow>
                (case Sensors h of
                   Inl e \<Rightarrow> (Some e, info1)
                 | Inr ss \<Rightarrow>
                     (case find tdp_sensor ss of
                        None \<Rightarrow> (None, info1)
                      | Some s \<Rightarrow> (None, dict_set ''max_power'' (Value s) info1))))
      else lhm_name_and_power t hs info)"

definition lhm_part ::
    "bool \<Rightarrow> detect_env \<Rightarrow> (hardware list \<Rightarrow> dict \<Rightarrow> error option \<times> dict) \<Rightarrow> dict
       \<Rightarrow> error option \<times> dict" where
  "lhm_part lhm env loop info =
     (if lhm then
        (case computer_Hardware env of
           Inl e \<Rightarrow> (Some e, info)
         | Inr hs \<Rightarrow> loop hs info)
      else (None, info))"

subsection \<open>\<open>_detect_cpu\<close>\<close>

text \<open>
  The \<open>try\<close> block: the exception that reaches the outer handler, if any, and the
  record as it is then. The handlers of the inner blocks print and go on.
\<close>

definition detect_cpu_try :: "bool \<Rightarrow> detect_env \<Rightarrow> dict \<Rightarrow> error option \<times> dict" where
  "detect_cpu_try lhm env cpu_info =
     (case cpu_freq env of
        Inl e \<Rightarrow> (Some e, cpu_info)
      | Inr f \<Rightarrow>
          (let info1 =
                 (case f of
                    None \<Rightarrow> cpu_info
                  | Some (cur, mx) \<Rightarrow>
                      (let i = details_set ''base_frequency'' (PNum cur) cpu_info
                       in case mx of
                            None \<Rightarrow> i
                          | Some x \<Rightarrow> details_set ''max_frequency'' (PNum x) i));
               info2 =
                 (if os_nt env then
                    (case winreg_cpu_name env of
                       Inl e \<Rightarrow> info1
                     | Inr n \<Rightarrow> dict_set ''name'' (PStr n) info1)
                  else
                    (case cpuinfo_model_name env of
                       Inl e \<Rightarrow> info1
                     | Inr None \<Rightarrow> info1
                     | Inr (Some n) \<Rightarrow> dict_set ''name'' (PStr n) info1))
           in lhm_part lhm env (lhm_name_and_power 0) info2))"

text \<open>
  \<open>_detect_cpu\<close>: the two calls of \<open>psutil.cpu_count\<close> stand in the dictionary
  literal, before the \<open>try\<close>; the outer handler prints and the record is returned.
\<close>

definition detect_cpu :: "bool \<Rightarrow> detect_env \<Rightarrow> error + dict" where
  "detect_cpu lhm env =
     (case cpu_count_cores env of
        Inl e \<Rightarrow> Inl e
      | Inr cores \<Rightarrow>
          (case cpu_count_logical env of
             Inl e \<Rightarrow> Inl e
           | Inr threads \<Rightarrow> Inr (snd (detect_cpu_try lhm env (cpu_info0 cores threads)))))"

subsection \<open>\<open>_detect_gpu\<close>\<close>

text \<open>The first inner block: \<open>nvidia-smi\<close> for the name and then for the power limit.\<close>

definition gpu_nvidia :: "detect_env \<Rightarrow> dict \<Rightarrow> dict" where
  "gpu_nvidia env gpu_info =
     (case nvidia_smi_name env of
        Inl e \<Rightarrow> gpu_info
      | Inr result \<Rightarrow>
          if returncode result = 0 \<and> stdout result \<noteq> [] then
            (let info1 = dict_set ''name'' (PStr (stdout result)) gpu_info
             in case nvidia_smi_power_limit env of
                  Inl e \<Rightarrow> info1
                | Inr power_result \<Rightarrow>
                    if returncode power_result = 0 \<and> stdout power_result \<noteq> [] then
                      (case stdout_float power_result of
                         None \<Rightarrow> info1
                       | Some x \<Rightarrow> dict_set ''max_power'' (PNum x) info1)
                    else info1)
          else gpu_info)"

definition gpu_wmi :: "detect_env \<Rightarrow> dict \<Rightarrow> dict" where
  "gpu_wmi env gpu_info =
     (case wmi_video_controllers env of
        Inl e \<Rightarrow> gpu_info
      | Inr [] \<Rightarrow> gpu_info
      | Inr ((n, ram, drv) # rest) \<Rightarrow>
          details_set ''driver_version'' drv
            (details_set ''adapter_ram'' ram (dict_set ''name'' (PStr n) gpu_info)))"

definition gpu_linux :: "detect_env \<Rightarrow> dict \<Rightarrow> dict" where
  "gpu_linux env gpu_info =
     (case lspci env of
        Inl e \<Rightarrow> gpu_info
      | Inr (rc, vga) \<Rightarrow>
          (let info1 =
                 (if rc = 0 then
                    (case vga of None \<Rightarrow> gpu_info | Some n \<Rightarrow> dict_set ''name'' (PStr n) gpu_info)
                  else gpu_info);
               info2 =
                 (case nvidia_smi_name_again env of
                    Inl e \<Rightarrow> info1
                  | Inr r \<Rightarrow>
                      if returncode r = 0 \<and> stdout r \<noteq> []
                      then dict_set ''name'' (PStr (stdout r)) info1 else info1)
           in if map_of info2 ''name'' = Some (PStr ''Unknown GPU'') then
                (case amd_cards env of
                   Inl e \<Rightarrow> info2
                 | Inr [] \<Rightarrow> info2
                 | Inr (c # cs) \<Rightarrow> dict_set ''name'' (PStr c) info2)
              else info2))"

text \<open>
  In the source the \<open>else\<close> of the platform test is attached to the test of the name:
  the WMI block runs when the name is still unknown and the system is Windows, and the
  block written for Linux runs when the name is known already.
\<close>

definition detect_gpu_try :: "bool \<Rightarrow> detect_env \<Rightarrow> dict \<Rightarrow> error option \<times> dict" where
  "detect_gpu_try lhm env gpu_info =
     (let info1 = gpu_nvidia env gpu_info;
          info2 =
            (if map_of info1 ''name'' = Some (PStr ''Unknown GPU'') then
               (if os_nt env then gpu_wmi env info1 else info1)
             else gpu_linux env info1)
      in lhm_part lhm env (lhm_name_and_power 1) info2)"

definition detect_gpu :: "bool \<Rightarrow> detect_env \<Rightarrow> error + dict" where
  "detect_gpu lhm env = Inr (snd (detect_gpu_try lhm env gpu_info0))"

subsection \<open>\<open>_detect_motherboard\<close>\<close>

definition board_found :: "string \<Rightarrow> string \<Rightarrow> dict \<Rightarrow> dict" where
  "board_found manufacturer product mb_info =
     details_set ''model'' (PStr product)
       (details_set ''manufacturer'' (PStr manufacturer)
          (dict_set ''name'' (PStr (manufacturer @ '' '' @ product)) mb_info))"

text \<open>The loop over the hardware list: the first motherboard item gives the name.\<close>

definition lhm_board_name :: "hardware list \<Rightarrow> dict \<Rightarrow> error option \<times> dict" where
  "lhm_board_name hs mb_info =
     (None, case find (\<lambda>h. HardwareType h = 3) hs of
              None \<Rightarrow> mb_info
            | Some h \<Rightarrow> dict_set ''name'' (PStr (HardwareName h)) mb_info)"

definition detect_motherboard_try :: "bool \<Rightarrow> detect_env \<Rightarrow> dict \<Rightarrow> error option \<times> dict" where
  "detect_motherboard_try lhm env mb_info =
     (let info1 =
            (if os_nt env then
               (case wmi_base_boards env of
                  Inl e \<Rightarrow> mb_info
                | Inr [] \<Rightarrow> mb_info
                | Inr ((manufacturer, product) # rest) \<Rightarrow>
                    board_found manufacturer product mb_info)
             else
               (case dmi_board_vendor env of
                  Inl e \<Rightarrow> mb_info
                | Inr v \<Rightarrow>
                    (case dmi_board_name env of
                       Inl e \<Rightarrow> mb_info
                     | Inr p \<Rightarrow>
                         board_found (case v of None \<Rightarrow> ''Unknown'' | Some s \<Rightarrow> s)
                                     (case p of None \<Rightarrow> ''Unknown'' | Some s \<Rightarrow> s) mb_info)))
      in lhm_part lhm env lhm_board_name info1)"

definition detect_motherboard :: "bool \<Rightarrow> detect_env \<Rightarrow> error + dict" where
  "detect_motherboard lhm env = Inr (snd (detect_motherboard_try lhm env mb_info0))"

subsection \<open>\<open>_detect_memory\<close>\<close>

definition sticks_found :: "nat \<Rightarrow> dict \<Rightarrow> dict" where
  "sticks_found memory_sticks memory_info =
     details_set ''sticks'' (PNum (real memory_sticks))
       (dict_set ''max_power'' (PNum (DEFAULT_RAM_PER_STICK * real memory_sticks)) memory_info)"

definition detect_memory_try :: "bool \<Rightarrow> detect_env \<Rightarrow> dict \<Rightarrow> error option \<times> dict" where
  "detect_memory_try lhm env memory_info =
     (case virtual_memory env of
        Inl e \<Rightarrow> (Some e, memory_info)
      | Inr (vm_total, vm_available) \<Rightarrow>
          (let info1 = details_set ''available'' (PNum vm_available)
                         (details_set ''total'' (PNum vm_total) memory_info)
           in if os_nt env then
                (case wmi_physical_memory env of
                   Inl e \<Rightarrow> (None, info1)
                 | Inr (memory_sticks, total_capacity) \<Rightarrow>
                     if 0 < memory_sticks
                     then (None, details_set ''total_capacity'' (PNum (real total_capacity))
                                   (sticks_found memory_sticks info1))
                     else (None, info1))
              else
                (let info2 =
                       (case dmidecode env of
                          Inl e \<Rightarrow> info1
                        | Inr (rc, memory_sticks) \<Rightarrow>
                            if rc = 0 \<and> 0 < memory_sticks
                            then sticks_found memory_sticks info1 else info1)
                 in case proc_meminfo env of
                      Inl e \<Rightarrow> (None, info2)
                    | Inr None \<Rightarrow> (None, info2)
                    | Inr (Some total_kb) \<Rightarrow>
                        (None, details_set ''total_capacity'' (PNum (real total_kb * 1024))
                                 info2))))"

definition detect_memory :: "bool \<Rightarrow> detect_env \<Rightarrow> error + dict" where
  "detect_memory lhm env = Inr (snd (detect_memory_try lhm env memory_info0))"

subsection \<open>\<open>_detect_storage\<close>\<close>

text \<open>One partition: skipped without a device or when \<open>disk_usage\<close> raises.\<close>

definition add_partition :: "partition \<Rightarrow> dict \<Rightarrow> dict" where
  "add_partition disk storage_info =
     (if device disk = [] then storage_info
      else
        (case disk_usage disk of
           Inl e \<Rightarrow> storage_info
         | Inr (du_total, du_used, du_free, du_percent) \<Rightarrow>
             (let device_power = (if is_ssd disk then DEFAULT_SSD_POWER else DEFAULT_HDD_POWER);
                  device_info =
                    [(''device'', PStr (device disk)), (''mountpoint'', PStr (mountpoint disk)),
                     (''fstype'', PStr (fstype disk)), (''total'', PNum du_total),
                     (''used'', PNum du_used), (''free'', PNum du_free),
                     (''percent'', PNum du_percent), (''is_ssd'', PBool (is_ssd disk)),
                     (''power'', PNum device_power)]
              in case (map_of storage_info ''max_power'', map_of storage_info ''devices'') of
                   (Some (PNum w), Some (PList devices)) \<Rightarrow>
                     dict_set ''devices'' (PList (devices @ [PDict device_info]))
                       (dict_set ''max_power'' (PNum (w + device_power)) storage_info)
                 | _ \<Rightarrow> storage_info)))"

text \<open>The loop over the hardware list: every storage item is updated.\<close>

definition lhm_update_storage :: "hardware list \<Rightarrow> dict \<Rightarrow> error option \<times> dict" where
  "lhm_update_storage hs storage_info =
     (update_all (filter (\<lambda>h. HardwareType h = 4) hs), storage_info)"

definition detect_storage_try :: "bool \<Rightarrow> detect_env \<Rightarrow> dict \<Rightarrow> error option \<times> dict" where
  "detect_storage_try lhm env storage_info =
     (case disk_partitions env of
        Inl e \<Rightarrow> (Some e, storage_info)
      | Inr disks \<Rightarrow>
          lhm_part lhm env lhm_update_storage (fold add_partition disks storage_info))"

definition detect_storage :: "bool \<Rightarrow> detect_env \<Rightarrow> error + dict" where
  "detect_storage lhm env = Inr (snd (detect_storage_try lhm env storage_info0))"

subsection \<open>\<open>detect_hardware\<close>\<close>

text \<open>The dictionary literal calls the five sub-detectors in order, with no handler.\<close>

definition detect_hardware :: "bool \<Rightarrow> detect_env \<Rightarrow> error + dict" where
  "detect_hardware lhm env =
     (case detect_cpu lhm env of
        Inl e \<Rightarrow> Inl e
      | Inr cpu \<Rightarrow>
     (case detect_gpu lhm env of
        Inl e \<Rightarrow> Inl e
      | Inr gpu \<Rightarrow>
     (case detect_motherboard lhm env of
        Inl e \<Rightarrow> Inl e
      | Inr mb \<Rightarrow>
     (case detect_memory lhm env of
        Inl e \<Rightarrow> Inl e
      | Inr mem \<Rightarrow>
     (case detect_storage lhm env of
        Inl e \<Rightarrow> Inl e
      | Inr sto \<Rightarrow>
          Inr [(''cpu'', PDict cpu), (''gpu'', PDict gpu), (''motherboard'', PDict mb),
               (''memory'', PDict mem), (''storage'', PDict sto)])))))"

subsection \<open>Forcing a sub-detector to fail\<close>

text \<open>
  The first external query of the sub-detector of a type raises (for the graphics card
  and the motherboard, the first query of each platform branch); and the update of the
  item at a position of the hardware list raises.
\<close>

definition force_error :: "string \<Rightarrow> error \<Rightarrow> detect_env \<Rightarrow> detect_env" where
  "force_error t e env =
     (if t = ''cpu'' then env \<lparr> cpu_freq := Inl e \<rparr>
      else if t = ''gpu'' then
        env \<lparr> nvidia_smi_name := Inl e, wmi_video_controllers := Inl e, lspci := Inl e \<rparr>
      else if t = ''motherboard'' then
        env \<lparr> wmi_base_boards := Inl e, dmi_board_vendor := Inl e \<rparr>
      else if t = ''memory'' then env \<lparr> virtual_memory := Inl e \<rparr>
      else if t = ''storage'' then env \<lparr> disk_partitions := Inl e \<rparr>
      else env)"

definition fail_update :: "nat \<Rightarrow> error \<Rightarrow> detect_env \<Rightarrow> detect_env" where
  "fail_update i e env =
     env \<lparr> computer_Hardware :=
             (case computer_Hardware env of
                Inl e' \<Rightarrow> Inl e'
              | Inr hs \<Rightarrow> Inr (hs [i := (hs ! i) \<lparr> Update := Some e \<rparr>])) \<rparr>"

definition component_types :: "string list" where
  "component_types = [''cpu'', ''gpu'', ''motherboard'', ''memory'', ''storage'']"

text \<open>
  The entry of a type in the result of a detection pass (None when the pass raises), and
  a record that carries a type and a rated power.
\<close>

definition detected :: "bool \<Rightarrow> detect_env \<Rightarrow> string \<Rightarrow> pyobj option" where
  "detected lhm env k =
     (case detect_hardware lhm env of Inl e \<Rightarrow> None | Inr cs \<Rightarrow> map_of cs k)"

definition entry_of :: "error + dict \<Rightarrow> pyobj option" where
  "entry_of r = (case r of Inl e \<Rightarrow> None | Inr info \<Rightarrow> Some (PDict info))"

definition component_ok :: "string \<Rightarrow> dict \<Rightarrow> bool" where
  "component_ok t info =
     (dict_get info ''type'' = Inr (PStr t) \<and> (\<exists>v. dict_get info ''max_power'' = Inr v))"

section \<open>Concrete inputs\<close>

text \<open>Noon UTC of day 0, and a database holding two readings of that day.\<close>

definition noon :: clock where
  "noon = \<lparr> utc_now = 43200, utc_offset = 0 \<rparr>"

definition two_readings :: db where
  "two_readings =
     create_tables
       \<lparr> power_readings :=
           [\<lparr> row_id = 1, timestamp = 43200, total_power = 100,
              component_data = PDict [], cost = 15 / 1000 \<rparr>,
            \<lparr> row_id = 2, timestamp = 43205, total_power = 200,
              component_data = PDict [], cost = 30 / 1000 \<rparr>],
         next_id := 3 \<rparr>"

text \<open>
  A detection pass on a Linux system without LibreHardwareMonitor and \<open>nvidia-smi\<close>,
  where the DMI files cannot be read and \<open>psutil.virtual_memory\<close> raises, with one
  rotating disk; and the components it yields, which carry the default wattages.
\<close>

definition env_detect :: detect_env where
  "env_detect =
     \<lparr> computer_Hardware = Inl OSError, os_nt = False,
       cpu_count_cores = Inr (PNum 4), cpu_count_logical = Inr (PNum 8),
       cpu_freq = Inr None, winreg_cpu_name = Inl OSError, cpuinfo_model_name = Inr None,
       nvidia_smi_name = Inl OSError, nvidia_smi_power_limit = Inl OSError,
       wmi_video_controllers = Inl OSError, lspci = Inl OSError,
       nvidia_smi_name_again = Inl OSError, amd_cards = Inr [],
       wmi_base_boards = Inl OSError, dmi_board_vendor = Inl OSError,
       dmi_board_name = Inl OSError,
       virtual_memory = Inl OSError, wmi_physical_memory = Inl OSError,
       dmidecode = Inl OSError, proc_meminfo = Inr None,
       disk_partitions =
         Inr [\<lparr> device = ''/dev/sda1'', mountpoint = ''/'', fstype = ''ext4'',
                disk_usage = Inr (500, 200, 300, 40), is_ssd = False \<rparr>] \<rparr>"

definition example_components :: dict where
  "example_components =
     [(''cpu'', PDict [(''type'', PStr ''cpu''), (''name'', PStr ''Unknown CPU''),
                       (''cores'', PNum 4), (''threads'', PNum 8),
                       (''max_power'', PNum 65), (''details'', PDict [])]),
      (''gpu'', PDict [(''type'', PStr ''gpu''), (''name'', PStr ''Unknown GPU''),
                       (''max_power'', PNum 150), (''details'', PDict [])]),
      (''motherboard'', PDict [(''type'', PStr ''motherboard''),
                               (''name'', PStr ''Unknown Motherboard''),
                               (''max_power'', PNum 30), (''details'', PDict [])]),
      (''memory'', PDict [(''type'', PStr ''memory''), (''name'', PStr ''System Memory''),
                          (''max_power'', PNum 10), (''details'', PDict [])]),
      (''storage'',
         PDict [(''type'', PStr ''storage''),
                (''devices'',
                   PList [PDict [(''device'', PStr ''/dev/sda1''), (''mountpoint'', PStr ''/''),
                                 (''fstype'', PStr ''ext4''), (''total'', PNum 500),
                                 (''used'', PNum 200), (''free'', PNum 300),
                                 (''percent'', PNum 40), (''is_ssd'', PBool False),
                                 (''power'', PNum 7)]]),
                (''max_power'', PNum 7), (''details'', PDict [])])]"

text \<open>The monitor after that pass, without and with LibreHardwareMonitor.\<close>

definition monitor_est :: monitor where
  "monitor_est = \<lparr> lhm_initialized = False, components = example_components \<rparr>"

definition monitor_lhm :: monitor where
  "monitor_lhm = \<lparr> lhm_initialized = True, components = example_components \<rparr>"

text \<open>
  Without sensors: the processor at 50%, no \<open>nvidia-smi\<close>. And the same with
  \<open>psutil.cpu_percent()\<close> raising.
\<close>

definition env_est :: sample_env where
  "env_est =
     \<lparr> Hardware = Inl OSError,
       cpu_percent_lhm = Inr 50, cpu_percent_lhm_handler = Inr 50,
       nvidia_smi_lhm = Inl OSError,
       cpu_percent_est = Inr 50, nvidia_smi_est = Inl OSError \<rparr>"

definition env_fail :: sample_env where
  "env_fail = env_est \<lparr> cpu_percent_est := Inl OSError \<rparr>"

text \<open>
  With sensors: a processor that reports 45 W package power, and a graphics card with
  no power sensor whose load sensor reads 50% while \<open>nvidia-smi\<close> reports 80%.
\<close>

definition cpu_item :: hardware where
  "cpu_item =
     \<lparr> HardwareType = 0, HardwareName = ''CPU'', Update = None,
       Sensors = Inr [\<lparr> SensorType = 1, SensorName = ''CPU Package'', Value = PNum 45 \<rparr>,
                      \<lparr> SensorType = 2, SensorName = ''CPU Package'', Value = PNum 50 \<rparr>,
                      \<lparr> SensorType = 3, SensorName = ''CPU Total'', Value = PNum 20 \<rparr>] \<rparr>"

definition gpu_item :: hardware where
  "gpu_item =
     \<lparr> HardwareType = 1, HardwareName = ''GPU'', Update = None,
       Sensors = Inr [\<lparr> SensorType = 3, SensorName = ''GPU Core'', Value = PNum 50 \<rparr>,
                      \<lparr> SensorType = 2, SensorName = ''GPU Core'', Value = PNum 60 \<rparr>] \<rparr>"

definition env_lhm :: sample_env where
  "env_lhm =
     \<lparr> Hardware = Inr [cpu_item, gpu_item],
       cpu_percent_lhm = Inr 50, cpu_percent_lhm_handler = Inr 50,
       nvidia_smi_lhm = Inr \<lparr> returncode = 0, stdout = ''80'', stdout_float = Some 80 \<rparr>,
       cpu_percent_est = Inr 50, nvidia_smi_est = Inl OSError \<rparr>"

text \<open>
  A processor whose package power sensor reads 0 and whose load sensor reads 20%, and
  a graphics card with a load sensor of 50% and no \<open>nvidia-smi\<close>.
\<close>

definition cpu_item_zero :: hardware where
  "cpu_item_zero =
     \<lparr> HardwareType = 0, HardwareName = ''CPU'', Update = None,
       Sensors = Inr [\<lparr> SensorType = 1, SensorName = ''CPU Package'', Value = PNum 0 \<rparr>,
                      \<lparr> SensorType = 3, SensorName = ''CPU Total'', Value = PNum 20 \<rparr>] \<rparr>"

definition env_lhm_zero :: sample_env where
  "env_lhm_zero =
     env_lhm \<lparr> Hardware := Inr [cpu_item_zero, gpu_item], nvidia_smi_lhm := Inl OSError \<rparr>"

text \<open>
  Hardware items without sensors, the processor at 50% by \<open>psutil\<close>, and
  \<open>nvidia-smi\<close> reporting 0%.
\<close>

definition env_lhm_bare :: sample_env where
  "env_lhm_bare =
     env_lhm \<lparr> Hardware := Inr [cpu_item \<lparr> Sensors := Inr [] \<rparr>,
                               gpu_item \<lparr> Sensors := Inr [] \<rparr>],
               nvidia_smi_lhm := Inr \<lparr> returncode = 0, stdout = ''0'',
                                      stdout_float = Some 0 \<rparr> \<rparr>"



text \<open>
  A machine two hours east of UTC. Its local day 1 at 01:00, 03:00 and 23:00 and its
  local day 2 at 01:00; in UTC these are day 0 at 23:00 and day 1 at 01:00, 21:00 and
  23:00.
\<close>

definition east_0100 :: clock where
  "east_0100 = \<lparr> utc_now = 82800, utc_offset = 7200 \<rparr>"

definition east_0300 :: clock where
  "east_0300 = \<lparr> utc_now = 90000, utc_offset = 7200 \<rparr>"

definition east_2300 :: clock where
  "east_2300 = \<lparr> utc_now = 162000, utc_offset = 7200 \<rparr>"

definition east_next_0100 :: clock where
  "east_next_0100 = \<lparr> utc_now = 169200, utc_offset = 7200 \<rparr>"

text \<open>
  The samples 100 W and 200 W saved at 01:00 and 03:00 of local day 1, in both orders;
  and saved at 21:00 and 23:00 UTC of day 1, in both orders.
\<close>

definition morning_ab :: "delivery list" where
  "morning_ab = [(east_0100, 100, PDict [], None), (east_0300, 200, PDict [], None)]"

definition morning_ba :: "delivery list" where
  "morning_ba = [(east_0100, 200, PDict [], None), (east_0300, 100, PDict [], None)]"

definition night_ab :: "delivery list" where
  "night_ab = [(east_2300, 100, PDict [], None), (east_next_0100, 200, PDict [], None)]"

definition night_ba :: "delivery list" where
  "night_ba = [(east_2300, 200, PDict [], None), (east_next_0100, 100, PDict [], None)]"

text \<open>
  Three readings: 300 W and 100 W saved at 01:00 and 03:00 of local day 1, and 200 W
  saved at 01:00 of local day 2.
\<close>

definition three_saves :: "delivery list" where
  "three_saves =
     [(east_0100, 300, PDict [], None), (east_0300, 100, PDict [], None),
      (east_next_0100, 200, PDict [], None)]"

text \<open>
  A detection pass with LibreHardwareMonitor in which \<open>nvidia-smi\<close> names the graphics
  card and reports a power limit of 320 W; and the same pass when the update of the
  graphics card's hardware item raises.
\<close>

definition env_gpu_ok :: detect_env where
  "env_gpu_ok =
     env_detect
       \<lparr> computer_Hardware := Inr [cpu_item, gpu_item],
         nvidia_smi_name :=
           Inr \<lparr> returncode = 0, stdout = ''RTX 3080'', stdout_float = None \<rparr>,
         nvidia_smi_power_limit :=
           Inr \<lparr> returncode = 0, stdout = ''320.00'', stdout_float = Some 320 \<rparr> \<rparr>"

definition env_gpu_fails :: detect_env where
  "env_gpu_fails = fail_update 1 OSError env_gpu_ok"

section \<open>Settings: the price per kWh\<close>

text \<open>
  C1, as stated, fails: \<open>set_kwh_cost\<close> does not validate. On a new database,
  \<open>set_kwh_cost(0)\<close> returns normally and the stored price changes from 0.15 to 0.
\<close>

theorem C1_counterexample:
  "set_then_get no_faults 0 create_tables = Inr 0
   \<and> fst (get_kwh_cost no_faults create_tables) = Inr (15 / 100)"
  by (simp add: set_then_get_def set_kwh_cost_def get_kwh_cost_def no_faults_def
      create_tables_def DEFAULT_KWH_COST_def)

text \<open>
  C1, amended: the rejection of a price \<open>v \<le> 0\<close> is done by the caller,
  \<open>_save_settings\<close>, which shows an error and leaves the database as it is, and
  which stores a price \<open>v > 0\<close> through \<open>set_kwh_cost\<close>. \<open>set_kwh_cost\<close> itself
  returns normally for every \<open>v\<close>, and when the \<open>kwh_cost\<close> row exists and no
  statement fails, \<open>get_kwh_cost\<close> after \<open>set_kwh_cost(v)\<close> returns \<open>v\<close>.
\<close>

theorem C1_set_price:
  "(v \<le> 0 \<longrightarrow>
      save_settings fl (Inr v) d = (Showerror ''Cost per kWh must be greater than zero'', d))
   \<and> (0 < v \<longrightarrow>
      (\<exists>d'. set_kwh_cost fl v d = Inr d'
            \<and> save_settings fl (Inr v) d = (Showinfo ''Settings saved successfully'', d')))
   \<and> (\<exists>d'. set_kwh_cost fl v d = Inr d')
   \<and> (''kwh_cost'' \<in> dom (settings d) \<longrightarrow> set_then_get no_faults v d = Inr v)"
  by (auto simp add: save_settings_def set_then_get_def set_kwh_cost_def get_kwh_cost_def
      no_faults_def)

theorem C1_set_price_witness:
  "save_settings no_faults (Inr 0) create_tables
     = (Showerror ''Cost per kWh must be greater than zero'', create_tables)
   \<and> save_settings no_faults (Inr (- 1)) create_tables
     = (Showerror ''Cost per kWh must be greater than zero'', create_tables)
   \<and> set_then_get no_faults (1 / 5) create_tables = Inr (1 / 5)
   \<and> set_then_get no_faults (- 1) create_tables = Inr (- 1)"
  using C1_set_price [of 0 no_faults create_tables]
        C1_set_price [of "1 / 5" no_faults create_tables]
        C1_set_price [of "- 1" no_faults create_tables]
  by (simp add: create_tables_def)

section \<open>The daily aggregate\<close>

lemma map_of_insert_or_replace:
  "map_of (insert_or_replace k v tbl) k = Some v"
  by (induction tbl) (auto simp: insert_or_replace_def)

lemma foldl_max_Max: "foldl max (x::real) xs = Max (set (x # xs))"
proof -
  have "(\<lambda>a b. max b a) = (max :: real \<Rightarrow> real \<Rightarrow> real)"
    by (intro ext) (simp add: max.commute)
  then have "foldl max x xs = fold max xs x"
    by (simp add: foldl_conv_fold)
  then show ?thesis
    using Max.set_eq_fold [of x xs] by simp
qed

lemma py_max_nonempty: "xs \<noteq> [] \<Longrightarrow> py_max xs = Inr (Max (set xs))"
  by (cases xs) (simp_all add: foldl_max_Max del: foldl_Cons)

lemma update_daily_aggregation_row:
  assumes "readings_on today d \<noteq> []"
  shows "update_daily_aggregation today d =
           Inr (d\<lparr>daily_power :=
                  insert_or_replace today
                    \<lparr> avg_power = sum_list (map total_power (readings_on today d))
                                    / real (length (readings_on today d)),
                      max_power = Max (set (map total_power (readings_on today d))),
                      total_energy = sum_list (map (\<lambda>r. (total_power r / 1000)
                                        * (DEFAULT_POLLING_INTERVAL / 3600)) (readings_on today d)),
                      total_cost = sum_list (map cost (readings_on today d)),
                      usage_hours = real (length (readings_on today d))
                                        * (DEFAULT_POLLING_INTERVAL / 3600) \<rparr>
                    (daily_power d)\<rparr>)"
  using assms by (simp add: update_daily_aggregation_def Let_def py_max_nonempty)

lemma two_readings_on:
  "readings_on 0 two_readings =
     [\<lparr> row_id = 1, timestamp = 43200, total_power = 100,
        component_data = PDict [], cost = 15 / 1000 \<rparr>,
      \<lparr> row_id = 2, timestamp = 43205, total_power = 200,
        component_data = PDict [], cost = 30 / 1000 \<rparr>]"
  by (simp add: two_readings_def readings_on_def sql_date_def create_tables_def)

section \<open>Sampling\<close>

lemma get_power_readings_returns: "\<exists>t data. get_power_readings m env = Inr (t, data)"
  by (auto simp: get_power_readings_def estimate_power_consumption_def default_sample_def
      split: sum.splits)

lemma sum_powers_default: "sum_powers (snd default_sample) = Inr (fst default_sample)"
  by (simp add: default_sample_def dict_get_def)

lemma estimate_try_sum:
  assumes "estimate_try m env = Inr (t, data)"
  shows "sum_powers data = Inr t"
  using assms
  by (auto simp: estimate_try_def Let_def dict_get_def split: sum.splits)

lemma estimate_try_keys:
  assumes "estimate_try m env = Inr (t, data)"
  shows "map fst data = [''cpu'', ''gpu'', ''motherboard'', ''memory'', ''storage'', ''idle'']"
  using assms
  by (auto simp: estimate_try_def Let_def split: sum.splits)

lemma estimate_try_idle:
  assumes "estimate_try m env = Inr (t, data)"
  shows "dict_get data ''idle'' = Inr (PDict [(''power'', PNum DEFAULT_IDLE_POWER)])
         \<and> sum_powers (butlast data) = Inr (t - DEFAULT_IDLE_POWER)"
  using assms
  by (auto simp: estimate_try_def Let_def dict_get_def split: sum.splits)

lemma lhm_try_sum:
  assumes "lhm_try m env = Inr (t, data)"
  shows "sum_powers data = Inr t"
  using assms
  by (auto simp: lhm_try_def Let_def dict_get_def split: sum.splits option.splits)

lemma lhm_try_keys:
  assumes "lhm_try m env = Inr (t, data)"
  shows "map fst data = [''cpu'', ''gpu'', ''motherboard'', ''memory'', ''storage'']"
  using assms
  by (auto simp: lhm_try_def Let_def split: sum.splits option.splits)

lemma get_power_readings_cases:
  assumes "get_power_readings m env = Inr (t, data)"
  shows "(lhm_initialized m \<and> lhm_try m env = Inr (t, data))
         \<or> estimate_try m env = Inr (t, data)
         \<or> (t, data) = default_sample"
  using assms
  by (auto simp: get_power_readings_def estimate_power_consumption_def
      split: if_splits sum.splits)

lemma get_power_readings_sum:
  assumes "get_power_readings m env = Inr (t, data)"
  shows "sum_powers data = Inr t"
proof -
  consider "lhm_try m env = Inr (t, data)" | "estimate_try m env = Inr (t, data)"
    | "(t, data) = default_sample"
    using get_power_readings_cases [OF assms] by blast
  then show ?thesis
  proof cases
    case 1
    then show ?thesis by (rule lhm_try_sum)
  next
    case 2
    then show ?thesis by (rule estimate_try_sum)
  next
    case 3
    then have "t = fst default_sample" "data = snd default_sample"
      by (metis fst_conv, metis snd_conv)
    then show ?thesis by (simp add: sum_powers_default)
  qed
qed

text \<open>The concrete monitors and environments, evaluated.\<close>

lemma component_max_power_example:
  "component_max_power monitor_est ''cpu'' = Inr (PNum 65)"
  "component_max_power monitor_est ''gpu'' = Inr (PNum 150)"
  "component_max_power monitor_est ''motherboard'' = Inr (PNum 30)"
  "component_max_power monitor_est ''memory'' = Inr (PNum 10)"
  "component_max_power monitor_est ''storage'' = Inr (PNum 7)"
  "component_max_power monitor_lhm ''cpu'' = Inr (PNum 65)"
  "component_max_power monitor_lhm ''gpu'' = Inr (PNum 150)"
  "component_max_power monitor_lhm ''motherboard'' = Inr (PNum 30)"
  "component_max_power monitor_lhm ''memory'' = Inr (PNum 10)"
  "component_max_power monitor_lhm ''storage'' = Inr (PNum 7)"
  by (simp_all add: component_max_power_def monitor_est_def monitor_lhm_def
      example_components_def dict_get_def)

lemma estimate_try_env_fail: "estimate_try monitor_est env_fail = Inl OSError"
  by (simp add: estimate_try_def env_fail_def env_est_def)

lemma estimate_try_env_est:
  "estimate_try monitor_est env_est =
     Inr (12575 / 100,
          [(''cpu'', PDict [(''power'', PNum (2275 / 100)), (''utilization'', PNum 50),
                            (''temperature'', PNum 0)]),
           (''gpu'', PDict [(''power'', PNum 36), (''utilization'', PNum 30),
                            (''temperature'', PNum 0)]),
           (''motherboard'', PDict [(''power'', PNum 30)]),
           (''memory'', PDict [(''power'', PNum 10)]),
           (''storage'', PDict [(''power'', PNum 7)]),
           (''idle'', PDict [(''power'', PNum 20)])])"
  by (simp add: estimate_try_def env_est_def component_max_power_example
      utilization_power_def nvidia_utilization_def Let_def
      CPU_UTILIZATION_SCALING_def GPU_UTILIZATION_SCALING_def DEFAULT_IDLE_POWER_def)

lemma cpu_env_lhm:
  "get_cpu_power_lhm monitor_lhm env_lhm =
     Inr [(''power'', PNum 45), (''utilization'', PNum 20), (''temperature'', PNum 50)]"
  by (simp add: get_cpu_power_lhm_def cpu_power_try_def env_lhm_def cpu_item_def gpu_item_def
      initial_data_def cpu_sensor_def dict_get_def)

lemma gpu_env_lhm:
  "get_gpu_power_lhm monitor_lhm env_lhm =
     Inr [(''power'', PNum 96), (''utilization'', PNum 80), (''temperature'', PNum 60)]"
  by (simp add: get_gpu_power_lhm_def gpu_power_try_def env_lhm_def cpu_item_def gpu_item_def
      initial_data_def gpu_sensor_def dict_get_def nvidia_utilization_def Let_def
      component_max_power_example utilization_power_def GPU_UTILIZATION_SCALING_def)

lemma hardware_env_lhm:
  "Hardware env_lhm = Inr [cpu_item, gpu_item]"
  "Update cpu_item = None" "Update gpu_item = None"
  by (simp_all add: env_lhm_def cpu_item_def gpu_item_def)

lemma lhm_try_env_lhm:
  "lhm_try monitor_lhm env_lhm =
     Inr (188,
          [(''cpu'', PDict [(''power'', PNum 45), (''utilization'', PNum 20),
                            (''temperature'', PNum 50)]),
           (''gpu'', PDict [(''power'', PNum 96), (''utilization'', PNum 80),
                            (''temperature'', PNum 60)]),
           (''motherboard'', PDict [(''power'', PNum 30)]),
           (''memory'', PDict [(''power'', PNum 10)]),
           (''storage'', PDict [(''power'', PNum 7)])])"
  by (simp add: lhm_try_def hardware_env_lhm cpu_env_lhm gpu_env_lhm
      component_max_power_example Let_def dict_get_def)

text \<open>
  C2: \<open>get_power_readings\<close> always returns a pair of a total and a dictionary whose
  entries each carry a numeric power, whatever the outside world and the components
  are; and when the \<open>try\<close> block of the estimation path raises, the estimation path
  returns 100 W split as cpu 50, gpu 30, other 20, which is then the result of
  \<open>get_power_readings\<close> whenever the direct path is off or has raised as well.
\<close>

theorem C2_never_raises:
  "(\<exists>t data s. get_power_readings m env = Inr (t, data) \<and> sum_powers data = Inr s)
   \<and> (\<forall>e. estimate_try m env = Inl e \<longrightarrow>
         estimate_power_consumption m env
           = Inr (100, [(''cpu'', PDict [(''power'', PNum 50)]),
                        (''gpu'', PDict [(''power'', PNum 30)]),
                        (''other'', PDict [(''power'', PNum 20)])]))
   \<and> (\<forall>e. estimate_try m env = Inl e
            \<and> (\<not> lhm_initialized m \<or> (\<exists>e'. lhm_try m env = Inl e')) \<longrightarrow>
         get_power_readings m env
           = Inr (100, [(''cpu'', PDict [(''power'', PNum 50)]),
                        (''gpu'', PDict [(''power'', PNum 30)]),
                        (''other'', PDict [(''power'', PNum 20)])]))"
proof (intro conjI)
  obtain t data where r: "get_power_readings m env = Inr (t, data)"
    using get_power_readings_returns by blast
  then have "sum_powers data = Inr t"
    by (rule get_power_readings_sum)
  with r show "\<exists>t data s. get_power_readings m env = Inr (t, data) \<and> sum_powers data = Inr s"
    by blast
next
  show "\<forall>e. estimate_try m env = Inl e \<longrightarrow>
         estimate_power_consumption m env
           = Inr (100, [(''cpu'', PDict [(''power'', PNum 50)]),
                        (''gpu'', PDict [(''power'', PNum 30)]),
                        (''other'', PDict [(''power'', PNum 20)])])"
    by (simp add: estimate_power_consumption_def default_sample_def)
next
  show "\<forall>e. estimate_try m env = Inl e
            \<and> (\<not> lhm_initialized m \<or> (\<exists>e'. lhm_try m env = Inl e')) \<longrightarrow>
         get_power_readings m env
           = Inr (100, [(''cpu'', PDict [(''power'', PNum 50)]),
                        (''gpu'', PDict [(''power'', PNum 30)]),
                        (''other'', PDict [(''power'', PNum 20)])])"
    by (auto simp: get_power_readings_def estimate_power_consumption_def default_sample_def)
qed

theorem C2_never_raises_witness:
  "estimate_try monitor_est env_fail = Inl OSError
   \<and> \<not> lhm_initialized monitor_est
   \<and> get_power_readings monitor_est env_fail
       = Inr (100, [(''cpu'', PDict [(''power'', PNum 50)]),
                    (''gpu'', PDict [(''power'', PNum 30)]),
                    (''other'', PDict [(''power'', PNum 20)])])"
  using C2_never_raises [of monitor_est env_fail]
  by (simp add: estimate_try_env_fail) (simp add: monitor_est_def)

text \<open>
  C3: the total of every sample that \<open>get_power_readings\<close> returns is the sum of the
  power values of the entries of its \<open>component_data\<close>. A sample of the direct-sensor
  path has the five entries cpu, gpu, motherboard, memory and storage and no idle entry.
  A sample of the estimation path has these five and the entry idle of
  \<open>DEFAULT_IDLE_POWER\<close>, so that its total is the sum of the five plus the idle power.
  Every sample is of one of these two kinds or is the default sample.
\<close>

theorem C3_total_is_sum:
  "(get_power_readings m env = Inr (t, data) \<longrightarrow>
      sum_powers data = Inr t
      \<and> ((lhm_initialized m \<and> lhm_try m env = Inr (t, data))
         \<or> estimate_try m env = Inr (t, data)
         \<or> (t, data) = default_sample))
   \<and> (lhm_initialized m \<and> lhm_try m env = Inr (t1, data1) \<longrightarrow>
      get_power_readings m env = Inr (t1, data1)
      \<and> map fst data1 = [''cpu'', ''gpu'', ''motherboard'', ''memory'', ''storage''])
   \<and> (estimate_try m env = Inr (t2, data2) \<longrightarrow>
      map fst data2 = [''cpu'', ''gpu'', ''motherboard'', ''memory'', ''storage'', ''idle'']
      \<and> dict_get data2 ''idle'' = Inr (PDict [(''power'', PNum DEFAULT_IDLE_POWER)])
      \<and> sum_powers (butlast data2) = Inr (t2 - DEFAULT_IDLE_POWER)
      \<and> sum_powers data2 = Inr t2)"
proof (intro conjI impI)
  assume "get_power_readings m env = Inr (t, data)"
  then show "sum_powers data = Inr t"
    and "(lhm_initialized m \<and> lhm_try m env = Inr (t, data))
         \<or> estimate_try m env = Inr (t, data) \<or> (t, data) = default_sample"
    by (rule get_power_readings_sum, rule get_power_readings_cases)
next
  assume a: "lhm_initialized m \<and> lhm_try m env = Inr (t1, data1)"
  then show "get_power_readings m env = Inr (t1, data1)"
    by (simp add: get_power_readings_def)
  from a show "map fst data1 = [''cpu'', ''gpu'', ''motherboard'', ''memory'', ''storage'']"
    using lhm_try_keys [of m env t1 data1] by simp
next
  assume a: "estimate_try m env = Inr (t2, data2)"
  then show "map fst data2
               = [''cpu'', ''gpu'', ''motherboard'', ''memory'', ''storage'', ''idle'']"
    by (rule estimate_try_keys)
  from a show "dict_get data2 ''idle'' = Inr (PDict [(''power'', PNum DEFAULT_IDLE_POWER)])"
    and "sum_powers (butlast data2) = Inr (t2 - DEFAULT_IDLE_POWER)"
    by (simp_all add: estimate_try_idle)
  from a show "sum_powers data2 = Inr t2"
    by (rule estimate_try_sum)
qed

theorem C3_total_is_sum_witness:
  "lhm_initialized monitor_lhm
   \<and> get_power_readings monitor_lhm env_lhm = lhm_try monitor_lhm env_lhm
   \<and> (\<exists>data. lhm_try monitor_lhm env_lhm = Inr (188, data) \<and> sum_powers data = Inr 188
          \<and> map fst data = [''cpu'', ''gpu'', ''motherboard'', ''memory'', ''storage''])
   \<and> get_power_readings monitor_est env_est = estimate_try monitor_est env_est
   \<and> (\<exists>data. estimate_try monitor_est env_est = Inr (12575 / 100, data)
          \<and> sum_powers data = Inr (12575 / 100)
          \<and> sum_powers (butlast data) = Inr (10575 / 100))"
  using C3_total_is_sum [of monitor_lhm env_lhm 188 _ 188 _ 0 "[]"]
        C3_total_is_sum [of monitor_est env_est "12575 / 100" _ 0 "[]" "12575 / 100"]
  by (simp add: lhm_try_env_lhm estimate_try_env_est DEFAULT_IDLE_POWER_def
      get_power_readings_def estimate_power_consumption_def dict_get_def)
     (simp add: monitor_lhm_def monitor_est_def)

section \<open>The direct-sensor path, component by component\<close>

lemma dict_get_dict_set:
  "dict_get (dict_set k v d) k' = (if k' = k then Inr v else dict_get d k')"
  by (induction d) (auto simp: dict_get_def)

lemma hardware_loop_ok:
  assumes "\<forall>h\<in>set hs. HardwareType h = t \<longrightarrow> (\<exists>ss. Sensors h = Inr ss)"
  shows "hardware_loop t f hs data = (None, fold f (sensors_of_type t hs) data)"
  using assms
  by (induction hs arbitrary: data) (auto simp: sensors_of_type_def)

lemma fold_sensor_reading:
  assumes "\<And>s d. dict_get (f s d) k = (if P s then Inr (Value s) else dict_get d k)"
  shows "dict_get (fold f ss d) k
           = (if filter P ss = [] then dict_get d k else Inr (Value (last (filter P ss))))"
  by (induction ss rule: rev_induct) (simp_all add: assms)

lemma cpu_sensor_power:
  "dict_get (cpu_sensor s d) ''power'' = (if package_power s then Inr (Value s) else dict_get d ''power'')"
  by (simp add: cpu_sensor_def package_power_def dict_get_dict_set)

lemma cpu_sensor_utilization:
  "dict_get (cpu_sensor s d) ''utilization'' = (if cpu_load s then Inr (Value s) else dict_get d ''utilization'')"
  by (simp add: cpu_sensor_def cpu_load_def dict_get_dict_set)

lemma gpu_sensor_power:
  "dict_get (gpu_sensor s d) ''power'' = (if package_power s then Inr (Value s) else dict_get d ''power'')"
  by (simp add: gpu_sensor_def package_power_def dict_get_dict_set)

lemma gpu_sensor_utilization:
  "dict_get (gpu_sensor s d) ''utilization'' = (if gpu_load s then Inr (Value s) else dict_get d ''utilization'')"
  by (simp add: gpu_sensor_def gpu_load_def dict_get_dict_set)

lemma initial_data_get:
  "dict_get initial_data ''power'' = Inr (PNum 0)"
  "dict_get initial_data ''utilization'' = Inr (PNum 0)"
  by (simp_all add: initial_data_def dict_get_def)

lemma cpu_loop_readings:
  "dict_get (fold cpu_sensor ss initial_data) ''power'' = Inr (last_reading package_power ss)"
  "dict_get (fold cpu_sensor ss initial_data) ''utilization'' = Inr (last_reading cpu_load ss)"
  by (simp_all add: fold_sensor_reading [where P = package_power, OF cpu_sensor_power]
      fold_sensor_reading [where P = cpu_load, OF cpu_sensor_utilization]
      last_reading_def initial_data_get)

lemma gpu_loop_readings:
  "dict_get (fold gpu_sensor ss initial_data) ''power'' = Inr (last_reading package_power ss)"
  "dict_get (fold gpu_sensor ss initial_data) ''utilization'' = Inr (last_reading gpu_load ss)"
  by (simp_all add: fold_sensor_reading [where P = package_power, OF gpu_sensor_power]
      fold_sensor_reading [where P = gpu_load, OF gpu_sensor_utilization]
      last_reading_def initial_data_get)

lemma cpu_power_try_ok:
  assumes "Hardware env = Inr hs"
    and "\<forall>h\<in>set hs. HardwareType h = 0 \<longrightarrow> (\<exists>ss. Sensors h = Inr ss)"
  shows "\<not> py_eq0 (last_reading package_power (sensors_of_type 0 hs)) \<Longrightarrow>
           \<exists>data. get_cpu_power_lhm m env = Inr data
             \<and> dict_get data ''power'' = Inr (last_reading package_power (sensors_of_type 0 hs))"
    and "py_eq0 (last_reading package_power (sensors_of_type 0 hs)) \<Longrightarrow>
         component_max_power m ''cpu'' = Inr (PNum tdp) \<Longrightarrow>
         last_reading cpu_load (sensors_of_type 0 hs) = PNum u \<Longrightarrow> 0 < u \<Longrightarrow>
           \<exists>data. get_cpu_power_lhm m env = Inr data
             \<and> dict_get data ''power'' = Inr (PNum (tdp * (u / 100) * CPU_UTILIZATION_SCALING))"
    and "py_eq0 (last_reading package_power (sensors_of_type 0 hs)) \<Longrightarrow>
         component_max_power m ''cpu'' = Inr (PNum tdp) \<Longrightarrow>
         last_reading cpu_load (sensors_of_type 0 hs) = PNum u \<Longrightarrow> u \<le> 0 \<Longrightarrow>
         cpu_percent_lhm env = Inr c \<Longrightarrow>
           \<exists>data. get_cpu_power_lhm m env = Inr data
             \<and> dict_get data ''power'' = Inr (PNum (tdp * (c / 100) * CPU_UTILIZATION_SCALING))"
  using assms
  by (simp_all add: get_cpu_power_lhm_def cpu_power_try_def hardware_loop_ok
      cpu_loop_readings utilization_power_def dict_get_dict_set)

lemma gpu_power_try_ok:
  assumes "Hardware env = Inr hs"
    and "\<forall>h\<in>set hs. HardwareType h = 1 \<longrightarrow> (\<exists>ss. Sensors h = Inr ss)"
  shows "\<not> py_eq0 (last_reading package_power (sensors_of_type 1 hs)) \<Longrightarrow>
           \<exists>data. get_gpu_power_lhm m env = Inr data
             \<and> dict_get data ''power'' = Inr (last_reading package_power (sensors_of_type 1 hs))"
    and "py_eq0 (last_reading package_power (sensors_of_type 1 hs)) \<Longrightarrow>
         component_max_power m ''gpu'' = Inr (PNum tdp) \<Longrightarrow>
         nvidia_utilization (nvidia_smi_lhm env) = Some n \<Longrightarrow> n \<noteq> 0 \<Longrightarrow>
           \<exists>data. get_gpu_power_lhm m env = Inr data
             \<and> dict_get data ''power'' = Inr (PNum (tdp * (n / 100) * GPU_UTILIZATION_SCALING))"
    and "py_eq0 (last_reading package_power (sensors_of_type 1 hs)) \<Longrightarrow>
         component_max_power m ''gpu'' = Inr (PNum tdp) \<Longrightarrow>
         nvidia_utilization (nvidia_smi_lhm env) = None \<Longrightarrow>
         last_reading gpu_load (sensors_of_type 1 hs) = PNum u \<Longrightarrow> u \<noteq> 0 \<Longrightarrow>
           \<exists>data. get_gpu_power_lhm m env = Inr data
             \<and> dict_get data ''power'' = Inr (PNum (tdp * (u / 100) * GPU_UTILIZATION_SCALING))"
    and "py_eq0 (last_reading package_power (sensors_of_type 1 hs)) \<Longrightarrow>
         component_max_power m ''gpu'' = Inr (PNum tdp) \<Longrightarrow>
         nvidia_utilization (nvidia_smi_lhm env) = Some 0
           \<or> (nvidia_utilization (nvidia_smi_lhm env) = None
               \<and> last_reading gpu_load (sensors_of_type 1 hs) = PNum 0) \<Longrightarrow>
           \<exists>data. get_gpu_power_lhm m env = Inr data
             \<and> dict_get data ''power'' = Inr (PNum (tdp * (30 / 100) * GPU_UTILIZATION_SCALING))"
  using assms
  by (auto simp add: get_gpu_power_lhm_def gpu_power_try_def hardware_loop_ok Let_def
      gpu_loop_readings utilization_power_def dict_get_dict_set)


lemma example_readings:
  "last_reading package_power (sensors_of_type 0 [cpu_item, gpu_item]) = PNum 45"
  "last_reading package_power (sensors_of_type 1 [cpu_item, gpu_item]) = PNum 0"
  "filter package_power (sensors_of_type 1 [cpu_item, gpu_item]) = []"
  "last_reading gpu_load (sensors_of_type 1 [cpu_item, gpu_item]) = PNum 50"
  "last_reading package_power (sensors_of_type 0 [cpu_item_zero, gpu_item]) = PNum 0"
  "filter package_power (sensors_of_type 0 [cpu_item_zero, gpu_item])
     = [\<lparr> SensorType = 1, SensorName = ''CPU Package'', Value = PNum 0 \<rparr>]"
  "last_reading cpu_load (sensors_of_type 0 [cpu_item_zero, gpu_item]) = PNum 20"
  "last_reading package_power (sensors_of_type 1 [cpu_item_zero, gpu_item]) = PNum 0"
  "last_reading gpu_load (sensors_of_type 1 [cpu_item_zero, gpu_item]) = PNum 50"
  by (simp_all add: last_reading_def sensors_of_type_def cpu_item_def gpu_item_def
      cpu_item_zero_def package_power_def gpu_load_def cpu_load_def)

lemma bare_readings:
  "last_reading P (sensors_of_type t [cpu_item \<lparr> Sensors := Inr [] \<rparr>,
                                      gpu_item \<lparr> Sensors := Inr [] \<rparr>]) = PNum 0"
  by (simp add: last_reading_def sensors_of_type_def)

lemma cpu_env_lhm_zero:
  "get_cpu_power_lhm monitor_lhm env_lhm_zero =
     Inr [(''power'', PNum (91 / 10)), (''utilization'', PNum 20), (''temperature'', PNum 0)]"
  by (simp add: get_cpu_power_lhm_def cpu_power_try_def env_lhm_zero_def env_lhm_def
      cpu_item_zero_def gpu_item_def initial_data_def cpu_sensor_def dict_get_def
      component_max_power_example utilization_power_def CPU_UTILIZATION_SCALING_def)

text \<open>
  C8, as stated, fails on both counts. The graphics card of \<open>env_lhm\<close> has no power
  sensor and a load sensor that reads 50%, yet the utilization used is the 80% that
  \<open>nvidia-smi\<close> reports: 96 W, not 60 W. The processor of \<open>env_lhm_zero\<close> has a
  package power sensor, which reads 0, and its power is estimated from the load sensor
  instead: 9.1 W.
\<close>

theorem C8_counterexample:
  "filter package_power (sensors_of_type 1 [cpu_item, gpu_item]) = []
   \<and> last_reading gpu_load (sensors_of_type 1 [cpu_item, gpu_item]) = PNum 50
   \<and> get_gpu_power_lhm monitor_lhm env_lhm =
       Inr [(''power'', PNum 96), (''utilization'', PNum 80), (''temperature'', PNum 60)]
   \<and> (96 :: real) \<noteq> 150 * (50 / 100) * GPU_UTILIZATION_SCALING
   \<and> filter package_power (sensors_of_type 0 [cpu_item_zero, gpu_item])
       = [\<lparr> SensorType = 1, SensorName = ''CPU Package'', Value = PNum 0 \<rparr>]
   \<and> get_cpu_power_lhm monitor_lhm env_lhm_zero =
       Inr [(''power'', PNum (91 / 10)), (''utilization'', PNum 20),
            (''temperature'', PNum 0)]"
  by (simp add: example_readings gpu_env_lhm cpu_env_lhm_zero GPU_UTILIZATION_SCALING_def)

text \<open>
  C8, amended. In the direct-sensor path, when the enumerations do not raise and the
  rated power is a number: a component's power is the value of its package power
  sensor when that value is not 0; when there is no such sensor or it reads 0, the
  power is \<open>rated * (utilization / 100) * scaling\<close>, where for the processor the
  utilization is the load sensor's value when positive and the \<open>psutil\<close> value
  otherwise, and for the graphics card it is the value of \<open>nvidia-smi\<close> when that
  query succeeds and the load sensor's value otherwise, with 30 in place of 0.
\<close>

theorem C8_direct_path:
  assumes "Hardware env = Inr hs"
    and "\<forall>h\<in>set hs. \<exists>ss. Sensors h = Inr ss"
    and "component_max_power m ''cpu'' = Inr (PNum cpu_tdp)"
    and "component_max_power m ''gpu'' = Inr (PNum gpu_tdp)"
  shows
    "(\<not> py_eq0 (last_reading package_power (sensors_of_type 0 hs)) \<longrightarrow>
        (\<exists>data. get_cpu_power_lhm m env = Inr data
          \<and> dict_get data ''power'' = Inr (last_reading package_power (sensors_of_type 0 hs))))
     \<and> (py_eq0 (last_reading package_power (sensors_of_type 0 hs))
          \<and> last_reading cpu_load (sensors_of_type 0 hs) = PNum u \<and> 0 < u \<longrightarrow>
        (\<exists>data. get_cpu_power_lhm m env = Inr data
          \<and> dict_get data ''power''
              = Inr (PNum (cpu_tdp * (u / 100) * CPU_UTILIZATION_SCALING))))
     \<and> (py_eq0 (last_reading package_power (sensors_of_type 0 hs))
          \<and> last_reading cpu_load (sensors_of_type 0 hs) = PNum u \<and> u \<le> 0
          \<and> cpu_percent_lhm env = Inr c \<longrightarrow>
        (\<exists>data. get_cpu_power_lhm m env = Inr data
          \<and> dict_get data ''power''
              = Inr (PNum (cpu_tdp * (c / 100) * CPU_UTILIZATION_SCALING))))
     \<and> (\<not> py_eq0 (last_reading package_power (sensors_of_type 1 hs)) \<longrightarrow>
        (\<exists>data. get_gpu_power_lhm m env = Inr data
          \<and> dict_get data ''power'' = Inr (last_reading package_power (sensors_of_type 1 hs))))
     \<and> (py_eq0 (last_reading package_power (sensors_of_type 1 hs))
          \<and> nvidia_utilization (nvidia_smi_lhm env) = Some n \<and> n \<noteq> 0 \<longrightarrow>
        (\<exists>data. get_gpu_power_lhm m env = Inr data
          \<and> dict_get data ''power''
              = Inr (PNum (gpu_tdp * (n / 100) * GPU_UTILIZATION_SCALING))))
     \<and> (py_eq0 (last_reading package_power (sensors_of_type 1 hs))
          \<and> nvidia_utilization (nvidia_smi_lhm env) = None
          \<and> last_reading gpu_load (sensors_of_type 1 hs) = PNum v \<and> v \<noteq> 0 \<longrightarrow>
        (\<exists>data. get_gpu_power_lhm m env = Inr data
          \<and> dict_get data ''power''
              = Inr (PNum (gpu_tdp * (v / 100) * GPU_UTILIZATION_SCALING))))
     \<and> (py_eq0 (last_reading package_power (sensors_of_type 1 hs))
          \<and> (nvidia_utilization (nvidia_smi_lhm env) = Some 0
              \<or> (nvidia_utilization (nvidia_smi_lhm env) = None
                  \<and> last_reading gpu_load (sensors_of_type 1 hs) = PNum 0)) \<longrightarrow>
        (\<exists>data. get_gpu_power_lhm m env = Inr data
          \<and> dict_get data ''power''
              = Inr (PNum (gpu_tdp * (30 / 100) * GPU_UTILIZATION_SCALING))))"
proof -
  have s0: "\<forall>h\<in>set hs. HardwareType h = 0 \<longrightarrow> (\<exists>ss. Sensors h = Inr ss)"
    and s1: "\<forall>h\<in>set hs. HardwareType h = 1 \<longrightarrow> (\<exists>ss. Sensors h = Inr ss)"
    using assms(2) by simp_all
  note cpu = cpu_power_try_ok [OF assms(1) s0, of m]
  note gpu = gpu_power_try_ok [OF assms(1) s1, of m]
  show ?thesis
    using cpu(1) cpu(2) [OF _ assms(3)] cpu(3) [OF _ assms(3)]
          gpu(1) gpu(2) [OF _ assms(4)] gpu(3) [OF _ assms(4)] gpu(4) [OF _ assms(4)]
    by blast
qed

theorem C8_direct_path_witness:
  "(\<exists>data. get_cpu_power_lhm monitor_lhm env_lhm = Inr data
       \<and> dict_get data ''power'' = Inr (PNum 45))
   \<and> (\<exists>data. get_gpu_power_lhm monitor_lhm env_lhm = Inr data
       \<and> dict_get data ''power'' = Inr (PNum 96))
   \<and> (\<exists>data. get_cpu_power_lhm monitor_lhm env_lhm_zero = Inr data
       \<and> dict_get data ''power'' = Inr (PNum (91 / 10)))
   \<and> (\<exists>data. get_gpu_power_lhm monitor_lhm env_lhm_zero = Inr data
       \<and> dict_get data ''power'' = Inr (PNum 60))
   \<and> (\<exists>data. get_cpu_power_lhm monitor_lhm env_lhm_bare = Inr data
       \<and> dict_get data ''power'' = Inr (PNum (2275 / 100)))
   \<and> (\<exists>data. get_gpu_power_lhm monitor_lhm env_lhm_bare = Inr data
       \<and> dict_get data ''power'' = Inr (PNum 36))"
proof -
  have a: "Hardware env_lhm = Inr [cpu_item, gpu_item]"
    "\<forall>h\<in>set [cpu_item, gpu_item]. \<exists>ss. Sensors h = Inr ss"
    by (simp_all add: env_lhm_def cpu_item_def gpu_item_def)
  have b: "Hardware env_lhm_zero = Inr [cpu_item_zero, gpu_item]"
    "\<forall>h\<in>set [cpu_item_zero, gpu_item]. \<exists>ss. Sensors h = Inr ss"
    by (simp_all add: env_lhm_zero_def env_lhm_def cpu_item_zero_def gpu_item_def)
  have c: "Hardware env_lhm_bare
             = Inr [cpu_item \<lparr> Sensors := Inr [] \<rparr>, gpu_item \<lparr> Sensors := Inr [] \<rparr>]"
    "\<forall>h\<in>set [cpu_item \<lparr> Sensors := Inr [] \<rparr>, gpu_item \<lparr> Sensors := Inr [] \<rparr>].
       \<exists>ss. Sensors h = Inr ss"
    by (simp_all add: env_lhm_bare_def env_lhm_def)
  have n: "nvidia_utilization (nvidia_smi_lhm env_lhm) = Some 80"
    "nvidia_utilization (nvidia_smi_lhm env_lhm_zero) = None"
    "nvidia_utilization (nvidia_smi_lhm env_lhm_bare) = Some 0"
    "cpu_percent_lhm env_lhm_bare = Inr 50"
    by (simp_all add: nvidia_utilization_def env_lhm_def env_lhm_zero_def env_lhm_bare_def)
  show ?thesis
    using C8_direct_path [OF a component_max_power_example(6) component_max_power_example(7),
            of 0 0 80 0]
          C8_direct_path [OF b component_max_power_example(6) component_max_power_example(7),
            of 20 0 0 50]
          C8_direct_path [OF c component_max_power_example(6) component_max_power_example(7),
            of 0 50 0 0]
    by (simp add: example_readings bare_readings n
        CPU_UTILIZATION_SCALING_def GPU_UTILIZATION_SCALING_def)
qed

section \<open>Saving readings\<close>

lemma update_daily_aggregation_eq:
  "update_daily_aggregation today d =
     Inr (if readings_on today d = [] then d
          else d\<lparr>daily_power :=
                   insert_or_replace today (daily_row (readings_on today d)) (daily_power d)\<rparr>)"
  by (simp add: update_daily_aggregation_def Let_def py_max_nonempty daily_row_def)

lemma save_power_reading_rows:
  assumes "save_power_reading clk tp cd k d = Inr d'"
  shows "\<exists>p. price_or_stored k d = Inr p
           \<and> power_readings d' = power_readings d @
                [\<lparr> row_id = next_id d, timestamp = utc_now clk, total_power = tp,
                   component_data = cd, cost = (tp / 1000) * p \<rparr>]
           \<and> settings d' = settings d"
  using assms
  by (auto simp: save_power_reading_def Let_def update_daily_aggregation_eq
      split: sum.splits if_splits)

section \<open>The cost of a day\<close>

lemma cost_is_720_energy:
  assumes "\<forall>r\<in>set rs. cost r = (total_power r / 1000) * p"
  shows "sum_list (map cost rs)
           = 720 * (sum_list (map (\<lambda>r. (total_power r / 1000)
                                  * (DEFAULT_POLLING_INTERVAL / 3600)) rs) * p)"
  using assms
  by (induction rs) (simp_all add: DEFAULT_POLLING_INTERVAL_def algebra_simps)

lemma two_readings_row:
  "update_daily_aggregation 0 two_readings =
     Inr (two_readings
            \<lparr> daily_power := [(0, \<lparr> avg_power = 150, max_power = 200,
                                    total_energy = 1 / 2400, total_cost = 45 / 1000,
                                    usage_hours = 1 / 360 \<rparr>)] \<rparr>)"
  by (simp add: update_daily_aggregation_def two_readings_on Let_def insert_or_replace_def
      DEFAULT_POLLING_INTERVAL_def) (simp add: two_readings_def create_tables_def)

lemma save_first_reading:
  "save_power_reading noon 100 (PDict []) (Some (15 / 100)) create_tables
     = Inr (create_tables
             \<lparr> power_readings := [\<lparr> row_id = 1, timestamp = 43200, total_power = 100,
                                    component_data = PDict [], cost = 15 / 1000 \<rparr>],
               next_id := 2,
               daily_power := [(0, \<lparr> avg_power = 100, max_power = 100,
                                     total_energy = 1 / 7200, total_cost = 15 / 1000,
                                     usage_hours = 1 / 720 \<rparr>)] \<rparr>)"
  by (simp add: save_power_reading_def price_or_stored_def Let_def noon_def create_tables_def
      update_daily_aggregation_def readings_on_def sql_date_def date_today_def
      insert_or_replace_def DEFAULT_POLLING_INTERVAL_def)

text \<open>
  C9, as stated, fails where it says that the daily cost differs from
  \<open>total_energy * price\<close> for every interval other than 3600 seconds: a day whose only
  reading is 0 W has cost 0 and energy 0, at the interval of 5 seconds.
\<close>

theorem C9_counterexample:
  "save_power_reading noon 0 (PDict []) (Some (15 / 100)) create_tables
     = Inr (create_tables
             \<lparr> power_readings := [\<lparr> row_id = 1, timestamp = 43200, total_power = 0,
                                    component_data = PDict [], cost = 0 \<rparr>],
               next_id := 2,
               daily_power := [(0, \<lparr> avg_power = 0, max_power = 0, total_energy = 0,
                                     total_cost = 0, usage_hours = 1 / 720 \<rparr>)] \<rparr>)
   \<and> total_cost \<lparr> avg_power = 0, max_power = 0, total_energy = 0,
                  total_cost = 0, usage_hours = 1 / 720 \<rparr>
       = total_energy \<lparr> avg_power = 0, max_power = 0, total_energy = 0,
                        total_cost = 0, usage_hours = 1 / 720 \<rparr> * (15 / 100)
   \<and> DEFAULT_POLLING_INTERVAL \<noteq> 3600"
  by (simp add: save_power_reading_def price_or_stored_def Let_def noon_def create_tables_def
      update_daily_aggregation_def readings_on_def sql_date_def date_today_def
      insert_or_replace_def DEFAULT_POLLING_INTERVAL_def)

text \<open>
  C9, amended: the cost stored with a reading is \<open>(total_power / 1000) * price\<close>,
  the cost of one hour at that power; the daily cost is the sum of the stored costs of
  the day's readings; and when these were all saved at one price, the daily cost is
  720 times \<open>total_energy * price\<close>, hence different from it whenever it is not 0.
\<close>

theorem C9_cost:
  "(save_power_reading clk tp cd k d = Inr d' \<longrightarrow>
      (\<exists>p. price_or_stored k d = Inr p
         \<and> power_readings d' = power_readings d @
              [\<lparr> row_id = next_id d, timestamp = utc_now clk, total_power = tp,
                 component_data = cd, cost = (tp / 1000) * p \<rparr>]))
   \<and> (readings_on today d \<noteq> [] \<longrightarrow>
      (\<exists>d'' row. update_daily_aggregation today d = Inr d''
         \<and> map_of (daily_power d'') today = Some row
         \<and> total_cost row = sum_list (map cost (readings_on today d))
         \<and> ((\<forall>r\<in>set (readings_on today d). cost r = (total_power r / 1000) * price) \<longrightarrow>
              total_cost row = 720 * (total_energy row * price)
              \<and> (total_cost row \<noteq> 0 \<longrightarrow> total_cost row \<noteq> total_energy row * price))))"
proof (intro conjI impI)
  assume "save_power_reading clk tp cd k d = Inr d'"
  then show "\<exists>p. price_or_stored k d = Inr p
         \<and> power_readings d' = power_readings d @
              [\<lparr> row_id = next_id d, timestamp = utc_now clk, total_power = tp,
                 component_data = cd, cost = (tp / 1000) * p \<rparr>]"
    using save_power_reading_rows by blast
next
  assume ne: "readings_on today d \<noteq> []"
  let ?rs = "readings_on today d"
  have e: "(\<forall>r\<in>set ?rs. cost r = (total_power r / 1000) * price) \<longrightarrow>
            sum_list (map cost ?rs)
              = 720 * (sum_list (map (\<lambda>r. (total_power r / 1000)
                                  * (DEFAULT_POLLING_INTERVAL / 3600)) ?rs) * price)"
    using cost_is_720_energy [of ?rs price] by blast
  show "\<exists>d'' row. update_daily_aggregation today d = Inr d''
         \<and> map_of (daily_power d'') today = Some row
         \<and> total_cost row = sum_list (map cost (readings_on today d))
         \<and> ((\<forall>r\<in>set (readings_on today d). cost r = (total_power r / 1000) * price) \<longrightarrow>
              total_cost row = 720 * (total_energy row * price)
              \<and> (total_cost row \<noteq> 0 \<longrightarrow> total_cost row \<noteq> total_energy row * price))"
    using e by (auto simp add: update_daily_aggregation_row [OF ne] map_of_insert_or_replace)
qed

theorem C9_cost_witness:
  "(\<exists>d'. save_power_reading noon 100 (PDict []) (Some (15 / 100)) create_tables = Inr d'
       \<and> power_readings d' = [\<lparr> row_id = 1, timestamp = 43200, total_power = 100,
                                 component_data = PDict [], cost = 15 / 1000 \<rparr>])
   \<and> readings_on 0 two_readings \<noteq> []
   \<and> list_all (\<lambda>r. cost r = (total_power r / 1000) * (15 / 100)) (readings_on 0 two_readings)
   \<and> (\<exists>d'' row. update_daily_aggregation 0 two_readings = Inr d''
          \<and> map_of (daily_power d'') 0 = Some row
          \<and> total_cost row = 45 / 1000
          \<and> total_energy row * (15 / 100) = 1 / 16000
          \<and> total_cost row = 720 * (total_energy row * (15 / 100))
          \<and> total_cost row \<noteq> total_energy row * (15 / 100))"
  using C9_cost [of noon 100 "PDict []" "Some (15 / 100)" create_tables _ 0 "15 / 100"]
        C9_cost [of noon 0 PNone None two_readings two_readings 0 "15 / 100"]
        save_first_reading
  by (simp add: two_readings_on two_readings_row list_all_iff)

section \<open>The date of a reading\<close>

lemmas saving_defs =
  save_power_reading_def price_or_stored_def Let_def create_tables_def
  update_daily_aggregation_def readings_on_def sql_date_def date_today_def
  insert_or_replace_def DEFAULT_POLLING_INTERVAL_def DEFAULT_KWH_COST_def

lemmas east_defs = east_0100_def east_0300_def east_2300_def east_next_0100_def

lemma morning_rows:
  "aggregate_after morning_ab 1
     = Some \<lparr> avg_power = 200, max_power = 200, total_energy = 1 / 3600,
              total_cost = 30 / 1000, usage_hours = 1 / 720 \<rparr>"
  "aggregate_after morning_ba 1
     = Some \<lparr> avg_power = 100, max_power = 100, total_energy = 1 / 7200,
              total_cost = 15 / 1000, usage_hours = 1 / 720 \<rparr>"
  by (simp_all add: aggregate_after_def morning_ab_def morning_ba_def east_defs saving_defs)

lemma night_rows:
  "aggregate_after night_ab 1
     = Some \<lparr> avg_power = 100, max_power = 100, total_energy = 1 / 7200,
              total_cost = 15 / 1000, usage_hours = 1 / 720 \<rparr>"
  "aggregate_after night_ba 1
     = Some \<lparr> avg_power = 200, max_power = 200, total_energy = 1 / 3600,
              total_cost = 30 / 1000, usage_hours = 1 / 720 \<rparr>"
  by (simp_all add: aggregate_after_def night_ab_def night_ba_def east_defs saving_defs)

lemma three_saves_row:
  "aggregate_after three_saves 1
     = Some \<lparr> avg_power = 100, max_power = 100, total_energy = 1 / 7200,
              total_cost = 15 / 1000, usage_hours = 1 / 720 \<rparr>"
  by (simp add: aggregate_after_def three_saves_def east_defs saving_defs)

lemma three_saves_stamped: "stamped_on 1 three_saves = [100, 200]"
  by (simp add: stamped_on_def three_saves_def east_defs saving_defs)

lemma three_saves_saved: "saved_on 1 three_saves = [300, 100]"
  by (simp add: saved_on_def three_saves_def east_defs date_today_def)

text \<open>
  C4: the code breaks the claim. The readings of a day are selected by the UTC date of
  their timestamp (\<open>CURRENT_TIMESTAMP\<close>), while the aggregate is computed for, and
  keyed by, the local date (\<open>date.today()\<close>). Two hours east of UTC, the samples
  100 W and 200 W saved at 01:00 and 03:00 of local day 1 leave \<open>avg_power\<close> 200 for
  that day when saved in this order and 100 when saved in the other order. The same
  samples saved at 21:00 and 23:00 UTC of day 1 leave 100 in the first order and 200
  in the other.
\<close>

theorem C4_time_zone:
  "mset (map snd morning_ab) = mset (map snd morning_ba)
   \<and> map (\<lambda>x. date_today (fst x)) morning_ab = [1, 1]
   \<and> map (\<lambda>x. date_today (fst x)) morning_ba = [1, 1]
   \<and> aggregate_after morning_ab 1
       = Some \<lparr> avg_power = 200, max_power = 200, total_energy = 1 / 3600,
                total_cost = 30 / 1000, usage_hours = 1 / 720 \<rparr>
   \<and> aggregate_after morning_ba 1
       = Some \<lparr> avg_power = 100, max_power = 100, total_energy = 1 / 7200,
                total_cost = 15 / 1000, usage_hours = 1 / 720 \<rparr>
   \<and> mset (map snd night_ab) = mset (map snd night_ba)
   \<and> map (\<lambda>x. sql_date (utc_now (fst x))) night_ab = [1, 1]
   \<and> map (\<lambda>x. sql_date (utc_now (fst x))) night_ba = [1, 1]
   \<and> aggregate_after night_ab 1
       = Some \<lparr> avg_power = 100, max_power = 100, total_energy = 1 / 7200,
                total_cost = 15 / 1000, usage_hours = 1 / 720 \<rparr>
   \<and> aggregate_after night_ba 1
       = Some \<lparr> avg_power = 200, max_power = 200, total_energy = 1 / 3600,
                total_cost = 30 / 1000, usage_hours = 1 / 720 \<rparr>"
  using morning_rows night_rows
  by (simp add: morning_ab_def morning_ba_def night_ab_def night_ba_def east_defs
      date_today_def sql_date_def)

text \<open>
  C5: the code breaks the claim, by the same mismatch of the UTC date and the local
  date. Two hours east of UTC, 300 W and 100 W are saved at 01:00 and 03:00 of local
  day 1 and 200 W at 01:00 of local day 2. The readings saved on local day 1 are 300
  and 100, with mean 200 and maximum 300; the readings whose timestamp is on day 1 are
  100 and 200, with mean 150 and maximum 200; the row of day 1 has \<open>avg_power\<close> 100
  and \<open>max_power\<close> 100.
\<close>

theorem C5_time_zone:
  "saved_on 1 three_saves = [300, 100]
   \<and> stamped_on 1 three_saves = [100, 200]
   \<and> map_option avg_power (aggregate_after three_saves 1) = Some 100
   \<and> map_option max_power (aggregate_after three_saves 1) = Some 100
   \<and> sum_list (saved_on 1 three_saves) / real (length (saved_on 1 three_saves)) = 200
   \<and> Max (set (saved_on 1 three_saves)) = 300
   \<and> sum_list (stamped_on 1 three_saves) / real (length (stamped_on 1 three_saves)) = 150
   \<and> Max (set (stamped_on 1 three_saves)) = 200"
  by (simp add: three_saves_row three_saves_stamped three_saves_saved)

text \<open>
  C6: the code breaks the claim, by the same mismatch. In the session of three saves
  two hours east of UTC, two readings are saved on local day 1 and two readings have
  their timestamp on day 1, but the row of day 1 counts one reading: its
  \<open>usage_hours\<close> is \<open>1 * (5 / 3600)\<close> and its \<open>total_energy\<close> is
  \<open>(100 / 1000) * (5 / 3600)\<close>, where the sum is \<open>(400 / 1000) * (5 / 3600)\<close> over
  the readings saved on that day and \<open>(300 / 1000) * (5 / 3600)\<close> over the readings
  with that date.
\<close>

theorem C6_time_zone:
  "length (saved_on 1 three_saves) = 2
   \<and> length (stamped_on 1 three_saves) = 2
   \<and> map_option usage_hours (aggregate_after three_saves 1)
       = Some (1 * (DEFAULT_POLLING_INTERVAL / 3600))
   \<and> map_option total_energy (aggregate_after three_saves 1)
       = Some ((100 / 1000) * (DEFAULT_POLLING_INTERVAL / 3600))
   \<and> sum_list (map (\<lambda>p. (p / 1000) * (DEFAULT_POLLING_INTERVAL / 3600))
                    (saved_on 1 three_saves))
       = (400 / 1000) * (DEFAULT_POLLING_INTERVAL / 3600)
   \<and> sum_list (map (\<lambda>p. (p / 1000) * (DEFAULT_POLLING_INTERVAL / 3600))
                    (stamped_on 1 three_saves))
       = (300 / 1000) * (DEFAULT_POLLING_INTERVAL / 3600)"
  by (simp add: three_saves_row three_saves_stamped three_saves_saved
      DEFAULT_POLLING_INTERVAL_def)
section \<open>The monitoring loop and the polling interval\<close>


















section \<open>Detection\<close>

lemma detect_env_detect: "detect_hardware False env_detect = Inr example_components"
  by (simp add: detect_hardware_def detect_cpu_def detect_cpu_try_def detect_gpu_def
      detect_gpu_try_def gpu_nvidia_def detect_motherboard_def detect_motherboard_try_def
      detect_memory_def detect_memory_try_def detect_storage_def detect_storage_try_def
      add_partition_def lhm_part_def lhm_board_name_def lhm_update_storage_def
      env_detect_def example_components_def
      cpu_info0_def gpu_info0_def mb_info0_def memory_info0_def storage_info0_def
      DEFAULT_CPU_TDP_def DEFAULT_GPU_TDP_def DEFAULT_MOTHERBOARD_POWER_def
      DEFAULT_RAM_PER_STICK_def DEFAULT_HDD_POWER_def Let_def)

lemma detect_gpu_fails:
  "detect_gpu_try True env_gpu_fails gpu_info0
     = (Some OSError,
        [(''type'', PStr ''gpu''), (''name'', PStr ''GPU''),
         (''max_power'', PNum 320), (''details'', PDict [])])"
  by (simp add: detect_gpu_try_def gpu_nvidia_def gpu_linux_def lhm_part_def env_gpu_fails_def
      fail_update_def env_gpu_ok_def env_detect_def gpu_info0_def cpu_item_def gpu_item_def
      Let_def DEFAULT_GPU_TDP_def)

lemma dict_get_details_set:
  "k' \<noteq> ''details'' \<Longrightarrow> dict_get (details_set k v info) k' = dict_get info k'"
  by (simp add: details_set_def dict_get_dict_set split: option.splits pyobj.splits)

lemma ok_dict_set:
  "k \<noteq> ''type'' \<Longrightarrow> component_ok t info \<Longrightarrow> component_ok t (dict_set k v info)"
  by (auto simp: component_ok_def dict_get_dict_set)

lemma ok_details_set:
  "component_ok t info \<Longrightarrow> component_ok t (details_set k v info)"
  by (simp add: component_ok_def dict_get_details_set)

lemma ok_lhm_name_and_power:
  "component_ok t info \<Longrightarrow> component_ok t (snd (lhm_name_and_power ty hs info))"
  by (induction hs arbitrary: info)
     (auto simp: Let_def ok_dict_set split: option.splits sum.splits)

lemma lhm_name_and_power_fails:
  "lhm_name_and_power ty hs info = (Some e, info') \<Longrightarrow>
     dict_get info' ''max_power'' = dict_get info ''max_power''"
  by (induction hs arbitrary: info)
     (auto simp: Let_def dict_get_dict_set split: option.splits sum.splits if_splits)

lemma ok_lhm_part_name_and_power:
  "component_ok t info \<Longrightarrow> component_ok t (snd (lhm_part lhm env (lhm_name_and_power ty) info))"
  by (auto simp: lhm_part_def ok_lhm_name_and_power split: sum.splits)

lemma ok_cpu:
  "component_ok t info \<Longrightarrow> component_ok t (snd (detect_cpu_try lhm env info))"
  by (auto simp: detect_cpu_try_def Let_def
      intro!: ok_lhm_part_name_and_power ok_dict_set ok_details_set
      split: sum.splits option.splits prod.splits)

lemma ok_gpu_nvidia: "component_ok t info \<Longrightarrow> component_ok t (gpu_nvidia env info)"
  by (auto simp: gpu_nvidia_def Let_def intro!: ok_dict_set
      split: sum.splits option.splits)

lemma ok_gpu_wmi: "component_ok t info \<Longrightarrow> component_ok t (gpu_wmi env info)"
  by (auto simp: gpu_wmi_def intro!: ok_dict_set ok_details_set
      split: sum.splits list.splits prod.splits)

lemma ok_gpu_linux: "component_ok t info \<Longrightarrow> component_ok t (gpu_linux env info)"
  by (auto simp: gpu_linux_def Let_def intro!: ok_dict_set
      split: sum.splits list.splits prod.splits option.splits)

lemma ok_gpu:
  "component_ok t info \<Longrightarrow> component_ok t (snd (detect_gpu_try lhm env info))"
  by (auto simp: detect_gpu_try_def Let_def
      intro!: ok_lhm_part_name_and_power ok_gpu_nvidia ok_gpu_wmi ok_gpu_linux)

lemma ok_board_found:
  "component_ok t info \<Longrightarrow> component_ok t (board_found a b info)"
  by (simp add: board_found_def ok_dict_set ok_details_set)

lemma ok_motherboard:
  "component_ok t info \<Longrightarrow> component_ok t (snd (detect_motherboard_try lhm env info))"
  by (auto simp: detect_motherboard_try_def lhm_part_def lhm_board_name_def Let_def
      intro!: ok_board_found ok_dict_set
      split: sum.splits option.splits list.splits prod.splits)

lemma ok_sticks_found:
  "component_ok t info \<Longrightarrow> component_ok t (sticks_found n info)"
  by (simp add: sticks_found_def ok_dict_set ok_details_set)

lemma ok_memory:
  "component_ok t info \<Longrightarrow> component_ok t (snd (detect_memory_try lhm env info))"
  by (auto simp: detect_memory_try_def Let_def
      intro!: ok_sticks_found ok_details_set
      split: sum.splits option.splits prod.splits)

lemma ok_add_partition:
  "component_ok t info \<Longrightarrow> component_ok t (add_partition disk info)"
  by (auto simp: add_partition_def Let_def intro!: ok_dict_set
      split: sum.splits option.splits prod.splits pyobj.splits)

lemma ok_fold_add_partition:
  "component_ok t info \<Longrightarrow> component_ok t (fold add_partition disks info)"
  by (induction disks arbitrary: info) (simp_all add: ok_add_partition)

lemma ok_storage:
  "component_ok t info \<Longrightarrow> component_ok t (snd (detect_storage_try lhm env info))"
  by (auto simp: detect_storage_try_def lhm_part_def lhm_update_storage_def
      intro!: ok_fold_add_partition
      split: sum.splits)

lemma ok_defaults:
  "component_ok ''cpu'' (cpu_info0 c th)" "component_ok ''gpu'' gpu_info0"
  "component_ok ''motherboard'' mb_info0" "component_ok ''memory'' memory_info0"
  "component_ok ''storage'' storage_info0"
  by (simp_all add: component_ok_def dict_get_def cpu_info0_def gpu_info0_def mb_info0_def
      memory_info0_def storage_info0_def)


lemma lhm_part_fails:
  "lhm_part lhm env (lhm_name_and_power ty) info = (Some e, info') \<Longrightarrow>
     dict_get info' ''max_power'' = dict_get info ''max_power''"
  by (auto simp: lhm_part_def dest: lhm_name_and_power_fails split: if_splits sum.splits)

lemma detect_cpu_try_fails:
  assumes "detect_cpu_try lhm env info = (Some e, info')"
  shows "dict_get info' ''max_power'' = dict_get info ''max_power''"
  using assms
  by (auto simp: detect_cpu_try_def Let_def dict_get_dict_set dict_get_details_set
      dest!: lhm_part_fails split: option.splits sum.splits prod.splits if_splits)

lemma detect_motherboard_power:
  "dict_get (snd (detect_motherboard_try lhm env info)) ''max_power''
     = dict_get info ''max_power''"
  by (auto simp: detect_motherboard_try_def lhm_part_def lhm_board_name_def Let_def
      board_found_def
      dict_get_dict_set dict_get_details_set
      split: sum.splits option.splits list.splits prod.splits)

lemma detect_memory_try_fails:
  "detect_memory_try lhm env info = (Some e, info') \<Longrightarrow> info' = info"
  by (auto simp: detect_memory_try_def Let_def
      split: sum.splits option.splits prod.splits if_splits)

text \<open>Each sub-detector reads its own queries and its own part of the hardware list.\<close>

lemma detect_cpu_reads:
  assumes "cpu_count_cores env' = cpu_count_cores env"
    and "cpu_count_logical env' = cpu_count_logical env"
    and "cpu_freq env' = cpu_freq env" and "os_nt env' = os_nt env"
    and "winreg_cpu_name env' = winreg_cpu_name env"
    and "cpuinfo_model_name env' = cpuinfo_model_name env"
    and "lhm_part lhm env' (lhm_name_and_power 0) = lhm_part lhm env (lhm_name_and_power 0)"
  shows "detect_cpu lhm env' = detect_cpu lhm env"
  unfolding detect_cpu_def detect_cpu_try_def by (simp only: assms)

lemma detect_gpu_reads:
  assumes "nvidia_smi_name env' = nvidia_smi_name env"
    and "nvidia_smi_power_limit env' = nvidia_smi_power_limit env"
    and "os_nt env' = os_nt env"
    and "wmi_video_controllers env' = wmi_video_controllers env"
    and "lspci env' = lspci env"
    and "nvidia_smi_name_again env' = nvidia_smi_name_again env"
    and "amd_cards env' = amd_cards env"
    and "lhm_part lhm env' (lhm_name_and_power 1) = lhm_part lhm env (lhm_name_and_power 1)"
  shows "detect_gpu lhm env' = detect_gpu lhm env"
  unfolding detect_gpu_def detect_gpu_try_def gpu_nvidia_def gpu_wmi_def gpu_linux_def
  by (simp only: assms)

lemma detect_motherboard_reads:
  assumes "os_nt env' = os_nt env"
    and "wmi_base_boards env' = wmi_base_boards env"
    and "dmi_board_vendor env' = dmi_board_vendor env"
    and "dmi_board_name env' = dmi_board_name env"
    and "lhm_part lhm env' lhm_board_name = lhm_part lhm env lhm_board_name"
  shows "detect_motherboard lhm env' = detect_motherboard lhm env"
  unfolding detect_motherboard_def detect_motherboard_try_def by (simp only: assms)

lemma detect_memory_reads:
  assumes "virtual_memory env' = virtual_memory env" and "os_nt env' = os_nt env"
    and "wmi_physical_memory env' = wmi_physical_memory env"
    and "dmidecode env' = dmidecode env" and "proc_meminfo env' = proc_meminfo env"
  shows "detect_memory lhm env' = detect_memory lhm env"
  unfolding detect_memory_def detect_memory_try_def by (simp only: assms)

lemma detect_storage_reads:
  assumes "disk_partitions env' = disk_partitions env"
    and "lhm_part lhm env' lhm_update_storage = lhm_part lhm env lhm_update_storage"
  shows "detect_storage lhm env' = detect_storage lhm env"
  unfolding detect_storage_def detect_storage_try_def by (simp only: assms)

text \<open>A forced failure of one sub-detector is not seen by the others.\<close>

lemma force_error_hardware:
  "computer_Hardware (force_error t e env) = computer_Hardware env"
  by (simp add: force_error_def)

lemma force_error_lhm_part:
  "lhm_part lhm (force_error t e env) loop = lhm_part lhm env loop"
  by (intro ext) (simp add: lhm_part_def force_error_hardware)

lemma force_error_cpu:
  "t \<noteq> ''cpu'' \<Longrightarrow> detect_cpu lhm (force_error t e env) = detect_cpu lhm env"
  by (rule detect_cpu_reads) (simp_all add: force_error_lhm_part, simp_all add: force_error_def)

lemma force_error_gpu:
  "t \<noteq> ''gpu'' \<Longrightarrow> detect_gpu lhm (force_error t e env) = detect_gpu lhm env"
  by (rule detect_gpu_reads) (simp_all add: force_error_lhm_part, simp_all add: force_error_def)

lemma force_error_motherboard:
  "t \<noteq> ''motherboard'' \<Longrightarrow>
     detect_motherboard lhm (force_error t e env) = detect_motherboard lhm env"
  by (rule detect_motherboard_reads)
     (simp_all add: force_error_lhm_part, simp_all add: force_error_def)

lemma force_error_memory:
  "t \<noteq> ''memory'' \<Longrightarrow> detect_memory lhm (force_error t e env) = detect_memory lhm env"
  by (rule detect_memory_reads) (simp_all add: force_error_def)

lemma force_error_storage:
  "t \<noteq> ''storage'' \<Longrightarrow> detect_storage lhm (force_error t e env) = detect_storage lhm env"
  by (rule detect_storage_reads)
     (simp_all add: force_error_lhm_part, simp_all add: force_error_def)

lemma force_error_first_probe:
  "cpu_count_cores env = Inr c \<Longrightarrow> cpu_count_logical env = Inr th \<Longrightarrow>
     detect_cpu lhm (force_error ''cpu'' e env) = Inr (cpu_info0 c th)"
  "detect_memory lhm (force_error ''memory'' e env) = Inr memory_info0"
  "detect_storage lhm (force_error ''storage'' e env) = Inr storage_info0"
  by (simp_all add: force_error_def detect_cpu_def detect_cpu_try_def detect_memory_def
      detect_memory_try_def detect_storage_def detect_storage_try_def)


text \<open>A failing update of one hardware item is not seen by the sub-detectors of other types.\<close>

lemma lhm_name_and_power_update:
  "i < length hs \<Longrightarrow> HardwareType (hs ! i) \<noteq> t \<Longrightarrow>
     lhm_name_and_power t (hs [i := (hs ! i) \<lparr> Update := u \<rparr>]) info
       = lhm_name_and_power t hs info"
proof (induction hs arbitrary: i)
  case Nil
  then show ?case by simp
next
  case (Cons h hs)
  then show ?case by (cases i) simp_all
qed

lemma lhm_board_name_update:
  "lhm_board_name (hs [i := (hs ! i) \<lparr> Update := u \<rparr>]) info = lhm_board_name hs info"
proof (induction hs arbitrary: i)
  case Nil
  then show ?case by simp
next
  case (Cons h hs)
  then show ?case by (cases i) (simp_all add: lhm_board_name_def)
qed

lemma lhm_update_storage_update:
  "i < length hs \<Longrightarrow> HardwareType (hs ! i) \<noteq> 4 \<Longrightarrow>
     lhm_update_storage (hs [i := (hs ! i) \<lparr> Update := u \<rparr>]) info
       = lhm_update_storage hs info"
proof (induction hs arbitrary: i)
  case Nil
  then show ?case by simp
next
  case (Cons h hs)
  then show ?case by (cases i) (simp_all add: lhm_update_storage_def split: option.splits)
qed

lemma fail_update_lhm_part:
  assumes "computer_Hardware env = Inr hs" and "i < length hs"
  shows "HardwareType (hs ! i) \<noteq> t \<Longrightarrow>
           lhm_part lhm (fail_update i e env) (lhm_name_and_power t)
             = lhm_part lhm env (lhm_name_and_power t)"
    and "lhm_part lhm (fail_update i e env) lhm_board_name = lhm_part lhm env lhm_board_name"
    and "HardwareType (hs ! i) \<noteq> 4 \<Longrightarrow>
           lhm_part lhm (fail_update i e env) lhm_update_storage
             = lhm_part lhm env lhm_update_storage"
  using assms
  by (auto simp: lhm_part_def fail_update_def lhm_name_and_power_update
      lhm_board_name_update lhm_update_storage_update intro!: ext)

lemma fail_update_others:
  assumes "computer_Hardware env = Inr hs" and "i < length hs" and "HardwareType (hs ! i) = 1"
  shows "detect_cpu lhm (fail_update i e env) = detect_cpu lhm env"
    and "detect_motherboard lhm (fail_update i e env) = detect_motherboard lhm env"
    and "detect_memory lhm (fail_update i e env) = detect_memory lhm env"
    and "detect_storage lhm (fail_update i e env) = detect_storage lhm env"
proof -
  have t: "HardwareType (hs ! i) \<noteq> 0" "HardwareType (hs ! i) \<noteq> 4"
    using assms(3) by simp_all
  note l = fail_update_lhm_part [OF assms(1) assms(2)]
  show "detect_cpu lhm (fail_update i e env) = detect_cpu lhm env"
    by (rule detect_cpu_reads) (simp_all add: l(1) [OF t(1)], simp_all add: fail_update_def)
  show "detect_motherboard lhm (fail_update i e env) = detect_motherboard lhm env"
    by (rule detect_motherboard_reads) (simp_all add: l(2), simp_all add: fail_update_def)
  show "detect_memory lhm (fail_update i e env) = detect_memory lhm env"
    by (rule detect_memory_reads) (simp_all add: fail_update_def)
  show "detect_storage lhm (fail_update i e env) = detect_storage lhm env"
    by (rule detect_storage_reads) (simp_all add: l(3) [OF t(2)], simp_all add: fail_update_def)
qed

text \<open>The entries of a detection pass in which \<open>psutil.cpu_count\<close> returns.\<close>

lemma detected_entries:
  assumes "cpu_count_cores env = Inr cores" and "cpu_count_logical env = Inr threads"
  shows "detected lhm env ''cpu'' = entry_of (detect_cpu lhm env)"
    and "detected lhm env ''gpu'' = entry_of (detect_gpu lhm env)"
    and "detected lhm env ''motherboard'' = entry_of (detect_motherboard lhm env)"
    and "detected lhm env ''memory'' = entry_of (detect_memory lhm env)"
    and "detected lhm env ''storage'' = entry_of (detect_storage lhm env)"
    and "k \<notin> set component_types \<Longrightarrow> detected lhm env k = None"
  using assms
  by (simp_all add: detected_def detect_hardware_def detect_cpu_def detect_gpu_def
      detect_motherboard_def detect_memory_def detect_storage_def entry_of_def
      component_types_def)


lemma force_error_cpu_counts:
  "cpu_count_cores (force_error t e env) = cpu_count_cores env"
  "cpu_count_logical (force_error t e env) = cpu_count_logical env"
  by (simp_all add: force_error_def)

lemma detect_hardware_eq:
  assumes "cpu_count_cores env = Inr cores" and "cpu_count_logical env = Inr threads"
  shows "detect_hardware lhm env =
     Inr [(''cpu'', PDict (snd (detect_cpu_try lhm env (cpu_info0 cores threads)))),
          (''gpu'', PDict (snd (detect_gpu_try lhm env gpu_info0))),
          (''motherboard'', PDict (snd (detect_motherboard_try lhm env mb_info0))),
          (''memory'', PDict (snd (detect_memory_try lhm env memory_info0))),
          (''storage'', PDict (snd (detect_storage_try lhm env storage_info0)))]"
  using assms
  by (simp add: detect_hardware_def detect_cpu_def detect_gpu_def detect_motherboard_def
      detect_memory_def detect_storage_def)

lemma default_powers:
  "dict_get (cpu_info0 c th) ''max_power'' = Inr (PNum DEFAULT_CPU_TDP)"
  "dict_get mb_info0 ''max_power'' = Inr (PNum DEFAULT_MOTHERBOARD_POWER)"
  by (simp_all add: cpu_info0_def mb_info0_def dict_get_def)

lemma force_error_independent:
  assumes "cpu_count_cores env = Inr cores" and "cpu_count_logical env = Inr threads"
    and "k \<noteq> t"
  shows "detected lhm (force_error t e env) k = detected lhm env k"
proof -
  have c: "cpu_count_cores (force_error t e env) = Inr cores"
    "cpu_count_logical (force_error t e env) = Inr threads"
    using assms by (simp_all add: force_error_cpu_counts)
  note a = detected_entries [OF c, where lhm = lhm]
  note b = detected_entries [OF assms(1) assms(2), where lhm = lhm]
  consider "k = ''cpu''" | "k = ''gpu''" | "k = ''motherboard''" | "k = ''memory''"
    | "k = ''storage''" | "k \<notin> set component_types"
    by (auto simp: component_types_def)
  then show ?thesis
  proof cases
    case 1
    then show ?thesis using assms(3) by (simp add: a(1) b(1) force_error_cpu)
  next
    case 2
    then show ?thesis using assms(3) by (simp add: a(2) b(2) force_error_gpu)
  next
    case 3
    then show ?thesis using assms(3) by (simp add: a(3) b(3) force_error_motherboard)
  next
    case 4
    then show ?thesis using assms(3) by (simp add: a(4) b(4) force_error_memory)
  next
    case 5
    then show ?thesis using assms(3) by (simp add: a(5) b(5) force_error_storage)
  next
    case 6
    then show ?thesis by (simp add: a(6) b(6))
  qed
qed

lemma fail_update_independent:
  assumes "cpu_count_cores env = Inr cores" and "cpu_count_logical env = Inr threads"
    and "computer_Hardware env = Inr hs" and "i < length hs" and "HardwareType (hs ! i) = 1"
    and "k \<noteq> ''gpu''"
  shows "detected lhm (fail_update i e env) k = detected lhm env k"
proof -
  have c: "cpu_count_cores (fail_update i e env) = Inr cores"
    "cpu_count_logical (fail_update i e env) = Inr threads"
    using assms by (simp_all add: fail_update_def)
  note a = detected_entries [OF c, where lhm = lhm]
  note b = detected_entries [OF assms(1) assms(2), where lhm = lhm]
  note f = fail_update_others [OF assms(3) assms(4) assms(5), where lhm = lhm and e = e]
  consider "k = ''cpu''" | "k = ''motherboard''" | "k = ''memory''"
    | "k = ''storage''" | "k \<notin> set component_types"
    using assms(6) by (auto simp: component_types_def)
  then show ?thesis
  proof cases
    case 1
    then show ?thesis by (simp add: a(1) b(1) f)
  next
    case 2
    then show ?thesis by (simp add: a(3) b(3) f)
  next
    case 3
    then show ?thesis by (simp add: a(4) b(4) f)
  next
    case 4
    then show ?thesis by (simp add: a(5) b(5) f)
  next
    case 5
    then show ?thesis by (simp add: a(6) b(6))
  qed
qed

text \<open>
  C7, amended. Provided the two calls of \<open>psutil.cpu_count\<close> return,
  \<open>detect_hardware\<close> returns the five component types, each a record with its type
  and a rated power, whatever the other queries do. A sub-detector in which a query
  raises keeps what was written into its record before: the rated power is the default
  for the motherboard always and for the processor whenever its outer handler runs, the
  memory record is the default record whenever its outer handler runs, and the record
  is the built-in default when the first query of the processor, memory or storage
  sub-detector raises. Forcing the first query of one sub-detector to raise, or the
  update of a graphics card's hardware item, leaves the entries of the other types as
  they are without the failure.
\<close>

theorem C7_detection:
  assumes "cpu_count_cores env = Inr cores" and "cpu_count_logical env = Inr threads"
  shows
    "(\<exists>cpu gpu mb mem sto.
        detect_hardware lhm env =
          Inr [(''cpu'', PDict cpu), (''gpu'', PDict gpu), (''motherboard'', PDict mb),
               (''memory'', PDict mem), (''storage'', PDict sto)]
        \<and> component_ok ''cpu'' cpu \<and> component_ok ''gpu'' gpu
        \<and> component_ok ''motherboard'' mb \<and> component_ok ''memory'' mem
        \<and> component_ok ''storage'' sto
        \<and> dict_get mb ''max_power'' = Inr (PNum DEFAULT_MOTHERBOARD_POWER)
        \<and> ((\<exists>err. fst (detect_cpu_try lhm env (cpu_info0 cores threads)) = Some err) \<longrightarrow>
             dict_get cpu ''max_power'' = Inr (PNum DEFAULT_CPU_TDP))
        \<and> ((\<exists>err. fst (detect_memory_try lhm env memory_info0) = Some err) \<longrightarrow>
             mem = memory_info0))
     \<and> detected lhm (force_error ''cpu'' e env) ''cpu'' = Some (PDict (cpu_info0 cores threads))
     \<and> detected lhm (force_error ''memory'' e env) ''memory'' = Some (PDict memory_info0)
     \<and> detected lhm (force_error ''storage'' e env) ''storage'' = Some (PDict storage_info0)
     \<and> (k \<noteq> t \<longrightarrow> detected lhm (force_error t e env) k = detected lhm env k)
     \<and> (computer_Hardware env = Inr hs \<and> i < length hs \<and> HardwareType (hs ! i) = 1
          \<and> k \<noteq> ''gpu'' \<longrightarrow>
        detected lhm (fail_update i e env) k = detected lhm env k)"
proof (intro conjI)
  let ?cpu = "snd (detect_cpu_try lhm env (cpu_info0 cores threads))"
  let ?mb = "snd (detect_motherboard_try lhm env mb_info0)"
  let ?mem = "snd (detect_memory_try lhm env memory_info0)"
  have p1: "(\<exists>err. fst (detect_cpu_try lhm env (cpu_info0 cores threads)) = Some err) \<longrightarrow>
             dict_get ?cpu ''max_power'' = Inr (PNum DEFAULT_CPU_TDP)"
    using detect_cpu_try_fails [of lhm env "cpu_info0 cores threads" _ ?cpu]
    by (auto simp: default_powers) (metis prod.collapse)
  have p2: "(\<exists>err. fst (detect_memory_try lhm env memory_info0) = Some err) \<longrightarrow>
             ?mem = memory_info0"
    using detect_memory_try_fails [of lhm env memory_info0 _ ?mem]
    by auto (metis prod.collapse)
  have p3: "dict_get ?mb ''max_power'' = Inr (PNum DEFAULT_MOTHERBOARD_POWER)"
    by (simp add: detect_motherboard_power default_powers)
  show "\<exists>cpu gpu mb mem sto.
        detect_hardware lhm env =
          Inr [(''cpu'', PDict cpu), (''gpu'', PDict gpu), (''motherboard'', PDict mb),
               (''memory'', PDict mem), (''storage'', PDict sto)]
        \<and> component_ok ''cpu'' cpu \<and> component_ok ''gpu'' gpu
        \<and> component_ok ''motherboard'' mb \<and> component_ok ''memory'' mem
        \<and> component_ok ''storage'' sto
        \<and> dict_get mb ''max_power'' = Inr (PNum DEFAULT_MOTHERBOARD_POWER)
        \<and> ((\<exists>err. fst (detect_cpu_try lhm env (cpu_info0 cores threads)) = Some err) \<longrightarrow>
             dict_get cpu ''max_power'' = Inr (PNum DEFAULT_CPU_TDP))
        \<and> ((\<exists>err. fst (detect_memory_try lhm env memory_info0) = Some err) \<longrightarrow>
             mem = memory_info0)"
    using p1 p2 p3
    by (simp add: detect_hardware_eq [OF assms] ok_cpu ok_gpu ok_motherboard ok_memory
        ok_storage ok_defaults)
next
  have c: "cpu_count_cores (force_error t' e env) = Inr cores"
    "cpu_count_logical (force_error t' e env) = Inr threads" for t'
    using assms by (simp_all add: force_error_cpu_counts)
  show "detected lhm (force_error ''cpu'' e env) ''cpu'' = Some (PDict (cpu_info0 cores threads))"
    by (simp add: detected_entries(1) [OF c] force_error_first_probe(1) [OF assms]
        entry_of_def)
  show "detected lhm (force_error ''memory'' e env) ''memory'' = Some (PDict memory_info0)"
    by (simp add: detected_entries(4) [OF c] force_error_first_probe(2) entry_of_def)
  show "detected lhm (force_error ''storage'' e env) ''storage'' = Some (PDict storage_info0)"
    by (simp add: detected_entries(5) [OF c] force_error_first_probe(3) entry_of_def)
next
  show "k \<noteq> t \<longrightarrow> detected lhm (force_error t e env) k = detected lhm env k"
    using force_error_independent [OF assms] by blast
next
  show "computer_Hardware env = Inr hs \<and> i < length hs \<and> HardwareType (hs ! i) = 1
          \<and> k \<noteq> ''gpu'' \<longrightarrow>
        detected lhm (fail_update i e env) k = detected lhm env k"
    using fail_update_independent [OF assms] by blast
qed


lemma env_gpu_counts:
  "cpu_count_cores env_gpu_ok = Inr (PNum 4)" "cpu_count_logical env_gpu_ok = Inr (PNum 8)"
  "cpu_count_cores env_gpu_fails = Inr (PNum 4)" "cpu_count_logical env_gpu_fails = Inr (PNum 8)"
  "computer_Hardware env_gpu_ok = Inr [cpu_item, gpu_item]"
  "HardwareType ([cpu_item, gpu_item] ! 1) = 1"
  by (simp_all add: env_gpu_fails_def fail_update_def env_gpu_ok_def env_detect_def
      gpu_item_def)

text \<open>
  C7, as stated, fails where it says that the failed type carries its built-in default
  record with the default wattage: when \<open>nvidia-smi\<close> has named the graphics card and
  reported 320 W and the update of its hardware item then raises, the outer handler of
  \<open>_detect_gpu\<close> runs and the record returned has that name and 320 W, not 150 W.
\<close>

theorem C7_counterexample:
  "detect_gpu_try True env_gpu_fails gpu_info0
     = (Some OSError,
        [(''type'', PStr ''gpu''), (''name'', PStr ''GPU''),
         (''max_power'', PNum 320), (''details'', PDict [])])
   \<and> detected True env_gpu_fails ''gpu''
       = Some (PDict [(''type'', PStr ''gpu''), (''name'', PStr ''GPU''),
                      (''max_power'', PNum 320), (''details'', PDict [])])
   \<and> [(''type'', PStr ''gpu''), (''name'', PStr ''GPU''),
       (''max_power'', PNum 320), (''details'', PDict [])] \<noteq> gpu_info0
   \<and> dict_get gpu_info0 ''max_power'' = Inr (PNum 150)"
  by (simp add: detect_gpu_fails detected_entries(2) [OF env_gpu_counts(3) env_gpu_counts(4)]
      detect_gpu_def entry_of_def)
     (simp add: gpu_info0_def dict_get_def DEFAULT_GPU_TDP_def)

theorem C7_detection_witness:
  "cpu_count_cores env_gpu_ok = Inr (PNum 4) \<and> cpu_count_logical env_gpu_ok = Inr (PNum 8)
   \<and> computer_Hardware env_gpu_ok = Inr [cpu_item, gpu_item]
   \<and> HardwareType ([cpu_item, gpu_item] ! 1) = 1
   \<and> detected True (force_error ''cpu'' OSError env_gpu_ok) ''cpu''
       = Some (PDict (cpu_info0 (PNum 4) (PNum 8)))
   \<and> detected True (force_error ''cpu'' OSError env_gpu_ok) ''gpu''
       = detected True env_gpu_ok ''gpu''
   \<and> detected True (fail_update 1 OSError env_gpu_ok) ''cpu'' = detected True env_gpu_ok ''cpu''
   \<and> detected True (fail_update 1 OSError env_gpu_ok) ''storage''
       = detected True env_gpu_ok ''storage''
   \<and> (\<exists>cpu gpu mb mem sto.
         detect_hardware True (fail_update 1 OSError env_gpu_ok) =
           Inr [(''cpu'', PDict cpu), (''gpu'', PDict gpu), (''motherboard'', PDict mb),
                (''memory'', PDict mem), (''storage'', PDict sto)]
         \<and> dict_get mb ''max_power'' = Inr (PNum 30))"
  using C7_detection [OF env_gpu_counts(1) env_gpu_counts(2), where lhm = True
          and e = OSError and t = "''cpu''" and k = "''gpu''" and i = 1
          and hs = "[cpu_item, gpu_item]"]
        C7_detection [OF env_gpu_counts(1) env_gpu_counts(2), where lhm = True
          and e = OSError and t = "''gpu''" and k = "''cpu''" and i = 1
          and hs = "[cpu_item, gpu_item]"]
        C7_detection [OF env_gpu_counts(1) env_gpu_counts(2), where lhm = True
          and e = OSError and t = "''gpu''" and k = "''storage''" and i = 1
          and hs = "[cpu_item, gpu_item]"]
        C7_detection [OF env_gpu_counts(3) env_gpu_counts(4), where lhm = True
          and e = OSError and t = "''gpu''" and k = "''storage''" and i = 1
          and hs = "[cpu_item, gpu_item]"]
        env_gpu_counts
  by (simp add: env_gpu_fails_def DEFAULT_MOTHERBOARD_POWER_def) blast


end
